theory Spec2Isabelle
  imports Complex_Main
begin

section \<open>Wall packing: a shallow embedding of src/main.py and src/core/wall\_builder.py\<close>

text \<open>
  The repository holds the packer twice: the monolith \<^verbatim>\<open>src/main.py\<close> and the extracted
  module \<^verbatim>\<open>src/core/wall_builder.py\<close>. Where the two differ both are embedded; a
  definition taken from the monolith carries the suffix \<open>_main\<close>, one taken from the core
  module the suffix \<open>_core\<close>, and a definition that is the same in both has no suffix.

  Python floats are modelled as exact reals. The geometry library (shapely) is not part of
  the repository: its operations are a parameter \<open>L\<close> of every function that touches a
  polygon, so every theorem below holds whatever the library answers.
\<close>

subsection \<open>Configuration constants (main.py, lines 76-94)\<close>

text \<open>
  The core module imports the same names from \<^verbatim>\<open>utils.config\<close>, which is not under src/;
  the values are those of main.py, which are also the defaults of the specification's
  configuration table.
\<close>

definition SCARTO_CUSTOM_MM :: int where "SCARTO_CUSTOM_MM = 5"
definition AREA_EPS :: real where "AREA_EPS = 1 / 1000"
definition COORD_EPS :: real where "COORD_EPS = 1 / 1000000"
definition SNAP_MM :: real where "SNAP_MM = 1"
definition MICRO_REST_MM :: real where "MICRO_REST_MM = 15"
definition KEEP_OUT_MM :: real where "KEEP_OUT_MM = 2"
definition SPLIT_MAX_WIDTH_MM :: int where "SPLIT_MAX_WIDTH_MM = 413"
definition BLOCK_HEIGHT :: int where "BLOCK_HEIGHT = 495"
definition BLOCK_WIDTHS :: "int list" where "BLOCK_WIDTHS = [1239, 826, 413]"
definition BLOCK_ORDERS :: "int list list" where
  "BLOCK_ORDERS = [[1239, 826, 413], [826, 1239, 413]]"
definition SIZE_TO_LETTER :: "(int \<times> string) list" where
  "SIZE_TO_LETTER = [(1239, ''A''), (826, ''B''), (413, ''C'')]"

subsection \<open>Errors\<close>

text \<open>
  \<open>InvalidGeometry\<close> is the \<^verbatim>\<open>ValueError("Polygon invalido: ...")\<close> of
  \<^verbatim>\<open>sanitize_polygon\<close>; \<open>ZeroDivisionError\<close> is a float division by zero;
  \<open>EmptySequence\<close> is the \<^verbatim>\<open>ValueError\<close> of \<^verbatim>\<open>min\<close> on an empty list.
\<close>

datatype error = InvalidGeometry | ZeroDivisionError | EmptySequence

subsection \<open>Python numerics\<close>

text \<open>\<^verbatim>\<open>round(v)\<close> with one argument: to the nearest integer, a tie to the even one.\<close>

definition py_round :: "real \<Rightarrow> int" where
  "py_round v =
     (let f = \<lfloor>v\<rfloor>; d = v - of_int f
      in if d < 1 / 2 then f else if 1 / 2 < d then f + 1 else if even f then f else f + 1)"

text \<open>\<^verbatim>\<open>int(v)\<close> on a float truncates towards zero.\<close>

definition py_int :: "real \<Rightarrow> int" where
  "py_int v = (if 0 \<le> v then \<lfloor>v\<rfloor> else \<lceil>v\<rceil>)"

text \<open>\<^verbatim>\<open>snap(v, grid=SNAP_MM)\<close>; every call in the packer uses the default grid.\<close>

definition snap :: "real \<Rightarrow> real" where
  "snap v = (if SNAP_MM \<le> 0 then v else of_int (py_round (v / SNAP_MM)) * SNAP_MM)"

text \<open>\<^verbatim>\<open>str\<close> of an integer, as the f-strings of the labels and type tags use it.\<close>

definition digit_char :: "nat \<Rightarrow> char" where
  "digit_char d = ''0123456789'' ! d"

fun str_nat :: "nat \<Rightarrow> string" where
  "str_nat n =
     (if n < 10 then [digit_char n]
      else str_nat (n div 10) @ [digit_char (n mod 10)])"

declare str_nat.simps [simp del]

definition str_int :: "int \<Rightarrow> string" where
  "str_int i = (if i < 0 then ''-'' @ str_nat (nat (- i)) else str_nat (nat i))"

subsection \<open>The geometry library as a parameter\<close>

datatype gkind = Polygon | MultiPolygon | OtherGeometry

text \<open>
  One field for each shapely operation the packer calls. \<open>kind\<close> answers the
  \<^verbatim>\<open>isinstance\<close> tests, \<open>interiors\<close> gives for each inner ring the number of its
  coordinates and \<^verbatim>\<open>Polygon(ring)\<close>. \<^verbatim>\<open>mapping\<close> and \<^verbatim>\<open>shape\<close> convert a polygon to a
  GeoJSON dictionary and back; a custom piece stores the polygon itself.
\<close>

record 'p shapely =
  is_valid :: "'p \<Rightarrow> bool"
  is_empty :: "'p \<Rightarrow> bool"
  area :: "'p \<Rightarrow> real"
  bounds :: "'p \<Rightarrow> real \<times> real \<times> real \<times> real"
  buffer :: "'p \<Rightarrow> real \<Rightarrow> 'p"
  box :: "real \<Rightarrow> real \<Rightarrow> real \<Rightarrow> real \<Rightarrow> 'p"
  intersection :: "'p \<Rightarrow> 'p \<Rightarrow> 'p"
  difference :: "'p \<Rightarrow> 'p \<Rightarrow> 'p"
  unary_union :: "'p list \<Rightarrow> 'p"
  contains :: "'p \<Rightarrow> 'p \<Rightarrow> bool"
  kind :: "'p \<Rightarrow> gkind"
  geoms :: "'p \<Rightarrow> 'p list"
  interiors :: "'p \<Rightarrow> (nat \<times> 'p) list"

subsection \<open>Geometry utilities (main.py, lines 137-171)\<close>

definition polygon_holes :: "'p shapely \<Rightarrow> 'p \<Rightarrow> 'p list" where
  "polygon_holes L p = map snd (filter (\<lambda>(n, ring). 4 \<le> n) (interiors L p))"

definition sanitize_polygon :: "'p shapely \<Rightarrow> 'p \<Rightarrow> error + 'p" where
  "sanitize_polygon L p =
     (if is_valid L p then Inr p
      else let fixed = buffer L p 0
           in if is_valid L fixed then Inr fixed else Inl InvalidGeometry)"

definition ensure_multipolygon :: "'p shapely \<Rightarrow> 'p \<Rightarrow> 'p list" where
  "ensure_multipolygon L geom =
     (case kind L geom of
        Polygon \<Rightarrow> [geom]
      | MultiPolygon \<Rightarrow> filter (\<lambda>g. \<not> is_empty L g) (geoms L geom)
      | OtherGeometry \<Rightarrow> [])"

subsection \<open>Placements\<close>

datatype ctype = CT1 | CT2 | OutOfSpec

record placed_block =
  b_type :: string
  b_width :: int
  b_height :: real
  b_x :: real
  b_y :: real

text \<open>
  The dictionary of a custom piece. The core module adds \<^verbatim>\<open>source_block_width\<close> and
  \<^verbatim>\<open>waste\<close>; \<^verbatim>\<open>ctype\<close> is absent until \<^verbatim>\<open>validate_and_tag_customs\<close> sets it.
\<close>

record 'p custom =
  c_type :: string
  c_width :: real
  c_height :: real
  c_x :: real
  c_y :: real
  c_geometry :: 'p
  c_source_block_width :: "real option"
  c_waste :: "real option"
  c_ctype :: "ctype option"

definition mk_std :: "real \<Rightarrow> real \<Rightarrow> int \<Rightarrow> int \<Rightarrow> placed_block" where
  "mk_std x y w h =
     \<lparr>b_type = ''std_'' @ str_int w @ ''x'' @ str_int h, b_width = w,
      b_height = of_int h, b_x = snap x, b_y = snap y\<rparr>"

definition mk_custom_main :: "'p shapely \<Rightarrow> 'p \<Rightarrow> error + 'p custom" where
  "mk_custom_main L geom =
     (case sanitize_polygon L geom of
        Inl e \<Rightarrow> Inl e
      | Inr g \<Rightarrow>
          (case bounds L g of
             (minx, miny, maxx, maxy) \<Rightarrow>
               Inr \<lparr>c_type = ''custom'', c_width = snap (maxx - minx),
                    c_height = snap (maxy - miny), c_x = snap minx, c_y = snap miny,
                    c_geometry = g, c_source_block_width = None, c_waste = None,
                    c_ctype = None\<rparr>))"

text \<open>\<^verbatim>\<open>min(suitable_blocks, key=...)\<close>: the first element with the least key.\<close>

fun py_min_key :: "('a \<Rightarrow> real) \<Rightarrow> 'a \<Rightarrow> 'a list \<Rightarrow> 'a" where
  "py_min_key k best [] = best"
| "py_min_key k best (w # ws) = py_min_key k (if k w < k best then w else best) ws"

definition choose_optimal_source_block_for_custom :: "real \<Rightarrow> int list \<Rightarrow> real" where
  "choose_optimal_source_block_for_custom required_width available_widths =
     (if available_widths = [] then required_width
      else
        let suitable_blocks = filter (\<lambda>w. required_width \<le> of_int w) available_widths
        in case suitable_blocks of
             [] \<Rightarrow> of_int (Max (set available_widths))
           | b # bs \<Rightarrow> of_int (py_min_key (\<lambda>w. of_int w - required_width) b bs))"

definition mk_custom_core :: "'p shapely \<Rightarrow> 'p \<Rightarrow> int list option \<Rightarrow> error + 'p custom" where
  "mk_custom_core L geom available_widths =
     (case sanitize_polygon L geom of
        Inl e \<Rightarrow> Inl e
      | Inr g \<Rightarrow>
          (case bounds L g of
             (minx, miny, maxx, maxy) \<Rightarrow>
               let required_width = snap (maxx - minx);
                   source_block_width =
                     (case available_widths of
                        None \<Rightarrow> required_width
                      | Some ws \<Rightarrow>
                          if ws = [] then required_width
                          else choose_optimal_source_block_for_custom required_width ws)
               in Inr \<lparr>c_type = ''custom'', c_width = required_width,
                       c_height = snap (maxy - miny), c_x = snap minx, c_y = snap miny,
                       c_geometry = g, c_source_block_width = Some source_block_width,
                       c_waste = Some (source_block_width - required_width),
                       c_ctype = None\<rparr>))"

subsection \<open>The segment packer of the core module (wall\_builder.py, lines 181-247)\<close>

datatype 'p emitted = EmitStd placed_block | EmitCustom "'p custom"

text \<open>
  The \<^verbatim>\<open>for block_width in widths_order\<close> loop at one cursor position. \<open>None\<close> is
  \<^verbatim>\<open>placed_one = False\<close> at the end of the loop; otherwise the piece appended and the new
  cursor. \<open>ws\<close> is the part of the order still to try.
\<close>

fun for_widths_core ::
  "'p shapely \<Rightarrow> 'p \<Rightarrow> real \<Rightarrow> real \<Rightarrow> real \<Rightarrow> real \<Rightarrow> int list \<Rightarrow> int list \<Rightarrow>
   error + ('p emitted \<times> real) option" where
  "for_widths_core L cmp y stripe_top cursor spazio_rimanente widths_order [] = Inr None"
| "for_widths_core L cmp y stripe_top cursor spazio_rimanente widths_order (block_width # ws) =
     (if of_int block_width \<le> spazio_rimanente + COORD_EPS then
        let candidate = box L cursor y (cursor + of_int block_width) stripe_top;
            intersec = intersection L candidate cmp
        in if \<not> is_empty L intersec \<and> AREA_EPS \<le> area L intersec then
             (if area L candidate = 0 then Inl ZeroDivisionError
              else if 95 / 100 \<le> area L intersec / area L candidate then
                Inr (Some (EmitStd (mk_std cursor y block_width BLOCK_HEIGHT),
                           snap (cursor + of_int block_width)))
              else
                (case mk_custom_core L intersec (Some widths_order) of
                   Inl e \<Rightarrow> Inl e
                 | Inr c \<Rightarrow> Inr (Some (EmitCustom c, snap (cursor + of_int block_width)))))
           else for_widths_core L cmp y stripe_top cursor spazio_rimanente widths_order ws
      else for_widths_core L cmp y stripe_top cursor spazio_rimanente widths_order ws)"

text \<open>
  The \<^verbatim>\<open>while cursor < seg_maxx - COORD_EPS\<close> loop. The result is \<open>None\<close> when the loop
  runs forever, \<open>Some (Inl e)\<close> when it raises and \<open>Some (Inr (placed, custom))\<close> when it
  ends.
\<close>

partial_function (option) greedy_loop_core ::
  "'p shapely \<Rightarrow> 'p \<Rightarrow> real \<Rightarrow> real \<Rightarrow> real \<Rightarrow> int list \<Rightarrow> real \<Rightarrow> placed_block list \<Rightarrow>
   'p custom list \<Rightarrow> (error + placed_block list \<times> 'p custom list) option" where
  "greedy_loop_core L cmp y stripe_top seg_maxx widths_order cursor placed custom =
     (if cursor < seg_maxx - COORD_EPS then
        (case for_widths_core L cmp y stripe_top cursor (seg_maxx - cursor)
                widths_order widths_order of
           Inl e \<Rightarrow> Some (Inl e)
         | Inr (Some (EmitStd b, cursor')) \<Rightarrow>
             greedy_loop_core L cmp y stripe_top seg_maxx widths_order cursor'
               (placed @ [b]) custom
         | Inr (Some (EmitCustom c, cursor')) \<Rightarrow>
             greedy_loop_core L cmp y stripe_top seg_maxx widths_order cursor'
               placed (custom @ [c])
         | Inr None \<Rightarrow>
             (if MICRO_REST_MM < seg_maxx - cursor then
                let remaining_box = box L cursor y seg_maxx stripe_top;
                    remaining_intersec = intersection L remaining_box cmp
                in if \<not> is_empty L remaining_intersec \<and> AREA_EPS \<le> area L remaining_intersec
                   then (case mk_custom_core L remaining_intersec (Some widths_order) of
                           Inl e \<Rightarrow> Some (Inl e)
                         | Inr c \<Rightarrow> Some (Inr (placed, custom @ [c])))
                   else Some (Inr (placed, custom))
              else Some (Inr (placed, custom))))
      else Some (Inr (placed, custom)))"

declare greedy_loop_core.simps [code]

definition pack_segment_with_order_core ::
  "'p shapely \<Rightarrow> 'p \<Rightarrow> real \<Rightarrow> real \<Rightarrow> int list \<Rightarrow> int \<Rightarrow>
   (error + placed_block list \<times> 'p custom list) option" where
  "pack_segment_with_order_core L cmp y0 stripe_top0 widths_order offset =
     (case bounds L cmp of
        (seg_minx0, miny0, seg_maxx0, maxy0) \<Rightarrow>
          let seg_minx = snap seg_minx0;
              seg_maxx = snap seg_maxx0;
              y = snap y0;
              stripe_top = snap stripe_top0;
              cursor = seg_minx
          in if offset \<noteq> 0 \<and> cursor + of_int offset \<le> seg_maxx + COORD_EPS then
               let candidate = box L cursor y (cursor + of_int offset) stripe_top;
                   intersec = intersection L candidate cmp
               in if \<not> is_empty L intersec \<and> AREA_EPS \<le> area L intersec then
                    (if area L candidate = 0 then Some (Inl ZeroDivisionError)
                     else if 95 / 100 \<le> area L intersec / area L candidate then
                       greedy_loop_core L cmp y stripe_top seg_maxx widths_order
                         (snap (cursor + of_int offset))
                         [mk_std cursor y offset BLOCK_HEIGHT] []
                     else
                       (case mk_custom_core L intersec (Some widths_order) of
                          Inl e \<Rightarrow> Some (Inl e)
                        | Inr c \<Rightarrow>
                            greedy_loop_core L cmp y stripe_top seg_maxx widths_order
                              (snap (cursor + of_int offset)) [] [c]))
                  else greedy_loop_core L cmp y stripe_top seg_maxx widths_order cursor [] []
             else greedy_loop_core L cmp y stripe_top seg_maxx widths_order cursor [] [])"

subsection \<open>A concrete geometry library: rectilinear regions\<close>

text \<open>
  For the examples: a region is a list of axis-aligned rectangles \<open>(minx, miny, maxx, maxy)\<close>
  with disjoint interiors. Intersection, difference, union, area and bounds are those of
  the point sets. Every region is valid, \<open>buffer\<close> is exact at distance 0 (the examples use
  no other), a region has no inner rings, and a region of several rectangles answers the
  \<^verbatim>\<open>isinstance\<close> tests as a multipolygon whose parts are its rectangles.
\<close>

type_synonym rect = "real \<times> real \<times> real \<times> real"

definition rect_area :: "rect \<Rightarrow> real" where
  "rect_area r = (case r of (a, b, c, d) \<Rightarrow> (c - a) * (d - b))"

definition rect_proper :: "rect \<Rightarrow> bool" where
  "rect_proper r = (case r of (a, b, c, d) \<Rightarrow> a < c \<and> b < d)"

definition rect_clip :: "rect \<Rightarrow> rect \<Rightarrow> rect" where
  "rect_clip p q =
     (case (p, q) of
        ((a, b, c, d), (a', b', c', d')) \<Rightarrow> (max a a', max b b', min c c', min d d'))"

definition rect_minus :: "rect \<Rightarrow> rect \<Rightarrow> rect list" where
  "rect_minus p q =
     (if \<not> rect_proper (rect_clip p q) then [p]
      else case (p, rect_clip p q) of
             ((a, b, c, d), (a', b', c', d')) \<Rightarrow>
               filter rect_proper
                 [(a, b, a', d), (c', b, c, d), (a', b, c', b'), (a', d', c', d)])"

definition region_intersection :: "rect list \<Rightarrow> rect list \<Rightarrow> rect list" where
  "region_intersection r s =
     filter rect_proper (concat (map (\<lambda>p. map (rect_clip p) s) r))"

definition region_difference :: "rect list \<Rightarrow> rect list \<Rightarrow> rect list" where
  "region_difference r s = fold (\<lambda>q acc. concat (map (\<lambda>p. rect_minus p q) acc)) s r"

definition region_union :: "rect list list \<Rightarrow> rect list" where
  "region_union rs = fold (\<lambda>r acc. acc @ region_difference r acc) rs []"

fun region_bounds :: "rect list \<Rightarrow> rect" where
  "region_bounds [] = (0, 0, 0, 0)"
| "region_bounds [r] = r"
| "region_bounds (r # rs) =
     (case (r, region_bounds rs) of
        ((a, b, c, d), (a', b', c', d')) \<Rightarrow> (min a a', min b b', max c c', max d d'))"

definition region_lib :: "rect list shapely" where
  "region_lib =
     \<lparr>is_valid = (\<lambda>r. True),
      is_empty = (\<lambda>r. r = []),
      area = (\<lambda>r. sum_list (map rect_area r)),
      bounds = region_bounds,
      buffer = (\<lambda>r d. r),
      box = (\<lambda>a b c d. [(a, b, c, d)]),
      intersection = region_intersection,
      difference = region_difference,
      unary_union = region_union,
      contains = (\<lambda>r s. region_difference s r = []),
      kind = (\<lambda>r. case r of [] \<Rightarrow> Polygon | [p] \<Rightarrow> Polygon | p # q # qs \<Rightarrow> MultiPolygon),
      geoms = (\<lambda>r. map (\<lambda>p. [p]) r),
      interiors = (\<lambda>r. [])\<rparr>"

subsection \<open>Notions used to state the properties of the core segment packer\<close>



subsection \<open>The segment packer of the monolith (main.py, lines 1284-1414)\<close>

text \<open>
  A score is the Python tuple \<^verbatim>\<open>(len(custom), total_area)\<close>; the second component is
  \<open>None\<close> for \<^verbatim>\<open>float("inf")\<close>. \<open>score_lt\<close> is the tuple comparison \<^verbatim>\<open><\<close>.
\<close>

type_synonym score = "int \<times> real option"

definition float_lt :: "real option \<Rightarrow> real option \<Rightarrow> bool" where
  "float_lt a b =
     (case (a, b) of
        (Some u, Some v) \<Rightarrow> u < v
      | (Some u, None) \<Rightarrow> True
      | (None, _) \<Rightarrow> False)"

definition score_lt :: "score \<Rightarrow> score \<Rightarrow> bool" where
  "score_lt s t = (fst s < fst t \<or> (fst s = fst t \<and> float_lt (snd s) (snd t)))"

definition score_solution :: "'p shapely \<Rightarrow> placed_block list \<Rightarrow> 'p custom list \<Rightarrow> score" where
  "score_solution L placed custom =
     (int (length custom), Some (foldl (\<lambda>total_area c. total_area + area L (c_geometry c)) 0 custom))"

text \<open>\<^verbatim>\<open>math.isclose(a, b, rel_tol=1e-9)\<close>, with the default \<^verbatim>\<open>abs_tol=0.0\<close>.\<close>

definition isclose :: "real \<Rightarrow> real \<Rightarrow> bool" where
  "isclose a b = (a = b \<or> \<bar>a - b\<bar> \<le> max (1 / 1000000000 * max \<bar>a\<bar> \<bar>b\<bar>) 0)"

text \<open>The \<^verbatim>\<open>for bw in widths\<close> loop shared by \<^verbatim>\<open>_try_fill\<close> and the main loop.\<close>

fun for_widths_main ::
  "'p shapely \<Rightarrow> 'p \<Rightarrow> real \<Rightarrow> real \<Rightarrow> real \<Rightarrow> real \<Rightarrow> int list \<Rightarrow>
   error + ('p emitted \<times> real) option" where
  "for_widths_main L cmp y stripe_top seg_maxx cursor [] = Inr None"
| "for_widths_main L cmp y stripe_top seg_maxx cursor (bw # ws) =
     (if cursor + of_int bw \<le> seg_maxx + COORD_EPS then
        let candidate = box L cursor y (cursor + of_int bw) stripe_top;
            intersec = intersection L candidate cmp
        in if is_empty L intersec \<or> area L intersec < AREA_EPS then
             for_widths_main L cmp y stripe_top seg_maxx cursor ws
           else if isclose (area L intersec) (area L candidate) then
             Inr (Some (EmitStd (mk_std cursor y bw BLOCK_HEIGHT), snap (cursor + of_int bw)))
           else
             (case mk_custom_main L intersec of
                Inl e \<Rightarrow> Inl e
              | Inr c \<Rightarrow> Inr (Some (EmitCustom c, snap (cursor + of_int bw))))
      else for_widths_main L cmp y stripe_top seg_maxx cursor ws)"

partial_function (option) try_fill_loop ::
  "'p shapely \<Rightarrow> 'p \<Rightarrow> real \<Rightarrow> real \<Rightarrow> real \<Rightarrow> int list \<Rightarrow> real \<Rightarrow> placed_block list \<Rightarrow>
   'p custom list \<Rightarrow> (error + placed_block list \<times> 'p custom list) option" where
  "try_fill_loop L cmp y stripe_top seg_maxx widths cursor placed custom =
     (if cursor < seg_maxx - COORD_EPS then
        (case for_widths_main L cmp y stripe_top seg_maxx cursor widths of
           Inl e \<Rightarrow> Some (Inl e)
         | Inr (Some (EmitStd b, cursor')) \<Rightarrow>
             try_fill_loop L cmp y stripe_top seg_maxx widths cursor' (placed @ [b]) custom
         | Inr (Some (EmitCustom c, cursor')) \<Rightarrow>
             try_fill_loop L cmp y stripe_top seg_maxx widths cursor' placed (custom @ [c])
         | Inr None \<Rightarrow>
             (let remaining = intersection L cmp (box L cursor y seg_maxx stripe_top)
              in if \<not> is_empty L remaining \<and> AREA_EPS < area L remaining then
                   (case mk_custom_main L remaining of
                      Inl e \<Rightarrow> Some (Inl e)
                    | Inr c \<Rightarrow> Some (Inr (placed, custom @ [c])))
                 else Some (Inr (placed, custom))))
      else Some (Inr (placed, custom)))"

declare try_fill_loop.simps [code]

text \<open>\<^verbatim>\<open>_try_fill\<close> reads the right edge from the bounds without snapping it.\<close>

definition try_fill ::
  "'p shapely \<Rightarrow> 'p \<Rightarrow> real \<Rightarrow> real \<Rightarrow> int list \<Rightarrow> real \<Rightarrow>
   (error + placed_block list \<times> 'p custom list) option" where
  "try_fill L cmp y0 stripe_top0 widths start_x =
     (case bounds L cmp of
        (seg_minx, miny0, seg_maxx, maxy0) \<Rightarrow>
          try_fill_loop L cmp (snap y0) (snap stripe_top0) seg_maxx widths (snap start_x) [] [])"

text \<open>
  The main loop. \<open>history\<close> is the list of checkpoints
  \<^verbatim>\<open>(cursor_before, placed_index_len, custom_index_len)\<close>; one is appended at the start of
  every iteration, before the widths are tried.
\<close>

partial_function (option) segment_loop_main ::
  "'p shapely \<Rightarrow> 'p \<Rightarrow> real \<Rightarrow> real \<Rightarrow> real \<Rightarrow> int list \<Rightarrow> (real \<times> nat \<times> nat) list \<Rightarrow> real \<Rightarrow>
   placed_block list \<Rightarrow> 'p custom list \<Rightarrow> (error + placed_block list \<times> 'p custom list) option"
  where
  "segment_loop_main L cmp y stripe_top seg_maxx widths_order history0 cursor0 placed0 custom0 =
     (if cursor0 < seg_maxx - COORD_EPS then
        (let history = history0 @ [(cursor0, length placed0, length custom0)]
         in case for_widths_main L cmp y stripe_top seg_maxx cursor0 widths_order of
             Inl e \<Rightarrow> Some (Inl e)
           | Inr (Some (EmitStd b, cursor')) \<Rightarrow>
               segment_loop_main L cmp y stripe_top seg_maxx widths_order history cursor'
                 (placed0 @ [b]) custom0
           | Inr (Some (EmitCustom c, cursor')) \<Rightarrow>
               segment_loop_main L cmp y stripe_top seg_maxx widths_order history cursor'
                 placed0 (custom0 @ [c])
           | Inr None \<Rightarrow>
               (let remaining = intersection L cmp (box L cursor0 y seg_maxx stripe_top);
                    rem_width = seg_maxx - cursor0
                in if rem_width < MICRO_REST_MM \<and> history \<noteq> [] then
                     (case last history of
                        (cursor_prev, p_len, c_len) \<Rightarrow>
                          let placed = take p_len placed0;
                              custom = take c_len custom0;
                              cursor = cursor_prev;
                              alt_order = [413, 826, 1239]
                          in case try_fill L cmp y stripe_top alt_order cursor of
                               None \<Rightarrow> None
                             | Some (Inl e) \<Rightarrow> Some (Inl e)
                             | Some (Inr (p2, c2)) \<Rightarrow>
                                 let baseline_custom_area =
                                       (if \<not> is_empty L remaining \<and> AREA_EPS < area L remaining
                                        then area L remaining else 0);
                                     score_backtrack =
                                       score_solution L (placed @ p2) (custom @ c2);
                                     score_baseline =
                                       (int (length custom)
                                          + (if 0 < baseline_custom_area then 1 else 0),
                                        Some baseline_custom_area)
                                 in if score_lt score_backtrack score_baseline then
                                      (if p2 \<noteq> [] then
                                         segment_loop_main L cmp y stripe_top seg_maxx
                                           widths_order history
                                           (snap (b_x (last p2) + of_int (b_width (last p2))))
                                           (placed @ p2) (custom @ c2)
                                       else if c2 \<noteq> [] then
                                         Some (Inr (placed @ p2, custom @ c2))
                                       else
                                         segment_loop_main L cmp y stripe_top seg_maxx
                                           widths_order history cursor
                                           (placed @ p2) (custom @ c2))
                                    else if AREA_EPS < baseline_custom_area then
                                      (case mk_custom_main L remaining of
                                         Inl e \<Rightarrow> Some (Inl e)
                                       | Inr c \<Rightarrow> Some (Inr (placed, custom @ [c])))
                                    else Some (Inr (placed, custom)))
                   else if \<not> is_empty L remaining \<and> AREA_EPS < area L remaining then
                     (case mk_custom_main L remaining of
                        Inl e \<Rightarrow> Some (Inl e)
                      | Inr c \<Rightarrow> Some (Inr (placed0, custom0 @ [c])))
                   else Some (Inr (placed0, custom0))))
      else Some (Inr (placed0, custom0)))"

declare segment_loop_main.simps [code]

definition pack_segment_with_order_main ::
  "'p shapely \<Rightarrow> 'p \<Rightarrow> real \<Rightarrow> real \<Rightarrow> int list \<Rightarrow> int \<Rightarrow>
   (error + placed_block list \<times> 'p custom list) option" where
  "pack_segment_with_order_main L cmp y0 stripe_top0 widths_order offset =
     (case bounds L cmp of
        (seg_minx0, miny0, seg_maxx0, maxy0) \<Rightarrow>
          let seg_minx = snap seg_minx0;
              seg_maxx = snap seg_maxx0;
              y = snap y0;
              stripe_top = snap stripe_top0;
              cursor = seg_minx
          in if offset \<noteq> 0 \<and> cursor + of_int offset \<le> seg_maxx + COORD_EPS then
               let candidate = box L cursor y (cursor + of_int offset) stripe_top;
                   intersec = intersection L candidate cmp
               in if \<not> is_empty L intersec \<and> AREA_EPS \<le> area L intersec then
                    (if isclose (area L intersec) (area L candidate) then
                       segment_loop_main L cmp y stripe_top seg_maxx widths_order []
                         (snap (cursor + of_int offset))
                         [mk_std cursor y offset BLOCK_HEIGHT] []
                     else
                       (case mk_custom_main L intersec of
                          Inl e \<Rightarrow> Some (Inl e)
                        | Inr c \<Rightarrow>
                            segment_loop_main L cmp y stripe_top seg_maxx widths_order []
                              (snap (cursor + of_int offset)) [] [c]))
                  else segment_loop_main L cmp y stripe_top seg_maxx widths_order [] cursor [] []
             else segment_loop_main L cmp y stripe_top seg_maxx widths_order [] cursor [] [])"

text \<open>
  \<^verbatim>\<open>_pack_segment\<close>: every order of \<^verbatim>\<open>BLOCK_ORDERS\<close> is tried, a strictly better score
  replaces the best so far. The state is \<^verbatim>\<open>(best_placed, best_custom, best_score)\<close>.
\<close>

fun for_orders_main ::
  "'p shapely \<Rightarrow> 'p \<Rightarrow> real \<Rightarrow> real \<Rightarrow> int \<Rightarrow> int list list \<Rightarrow>
   placed_block list \<times> 'p custom list \<times> score \<Rightarrow>
   (error + placed_block list \<times> 'p custom list \<times> score) option" where
  "for_orders_main L cmp y stripe_top offset [] best = Some (Inr best)"
| "for_orders_main L cmp y stripe_top offset (order # orders) best =
     (case pack_segment_with_order_main L cmp y stripe_top order offset of
        None \<Rightarrow> None
      | Some (Inl e) \<Rightarrow> Some (Inl e)
      | Some (Inr (p_try, c_try)) \<Rightarrow>
          let score = score_solution L p_try c_try
          in if score_lt score (snd (snd best)) then
               for_orders_main L cmp y stripe_top offset orders (p_try, c_try, score)
             else for_orders_main L cmp y stripe_top offset orders best)"

definition pack_segment_main ::
  "'p shapely \<Rightarrow> 'p \<Rightarrow> real \<Rightarrow> real \<Rightarrow> int list \<Rightarrow> int \<Rightarrow>
   (error + placed_block list \<times> 'p custom list) option" where
  "pack_segment_main L cmp y stripe_top widths offset =
     (case for_orders_main L cmp y stripe_top offset BLOCK_ORDERS ([], [], (10 ^ 9, None)) of
        None \<Rightarrow> None
      | Some (Inl e) \<Rightarrow> Some (Inl e)
      | Some (Inr (best_placed, best_custom, best_score)) \<Rightarrow>
          Some (Inr (best_placed, best_custom)))"

subsection \<open>Post-processing of the custom pieces (main.py, lines 1815-1879)\<close>

text \<open>
  \<^verbatim>\<open>merge_customs_row_aware\<close> and \<^verbatim>\<open>split_out_of_spec\<close> read the same in both files; each
  calls the \<^verbatim>\<open>_mk_custom\<close> of its own module, here the parameter \<open>mk\<close>.
  \<open>rows\<close> is the \<^verbatim>\<open>defaultdict(list)\<close>, kept in insertion order as Python keeps it.
\<close>

fun rows_append :: "(int \<times> 'p list) list \<Rightarrow> int \<Rightarrow> 'p \<Rightarrow> (int \<times> 'p list) list" where
  "rows_append [] row_id poly = [(row_id, [poly])]"
| "rows_append ((k, polys) # rows) row_id poly =
     (if k = row_id then (k, polys @ [poly]) # rows
      else (k, polys) # rows_append rows row_id poly)"

fun merge_group ::
  "'p shapely \<Rightarrow> int \<Rightarrow> 'p custom list \<Rightarrow> (int \<times> 'p list) list \<Rightarrow>
   error + (int \<times> 'p list) list" where
  "merge_group L row_height [] rows = Inr rows"
| "merge_group L row_height (c # cs) rows =
     (if row_height = 0 then Inl ZeroDivisionError
      else
        let y0 = snap (c_y c);
            row_id = py_round (y0 / of_int row_height);
            poly = buffer L (c_geometry c) 0
        in merge_group L row_height cs (rows_append rows row_id poly))"

text \<open>\<^verbatim>\<open>for g in geoms: if g.area > AREA_EPS: out.append(_mk_custom(g))\<close>\<close>

fun for_geoms ::
  "('p \<Rightarrow> error + 'p custom) \<Rightarrow> 'p shapely \<Rightarrow> 'p list \<Rightarrow> 'p custom list \<Rightarrow>
   error + 'p custom list" where
  "for_geoms mk L [] out = Inr out"
| "for_geoms mk L (g # gs) out =
     (if AREA_EPS < area L g then
        (case mk g of Inl e \<Rightarrow> Inl e | Inr c \<Rightarrow> for_geoms mk L gs (out @ [c]))
      else for_geoms mk L gs out)"

fun merge_emit ::
  "('p \<Rightarrow> error + 'p custom) \<Rightarrow> 'p shapely \<Rightarrow> (int \<times> 'p list) list \<Rightarrow> 'p custom list \<Rightarrow>
   error + 'p custom list" where
  "merge_emit mk L [] out = Inr out"
| "merge_emit mk L ((rid, polys) # rows) out =
     (if polys = [] then merge_emit mk L rows out
      else
        let merged = unary_union L polys;
            gs = (if kind L merged = Polygon then [merged] else geoms L merged)
        in case for_geoms mk L gs out of
             Inl e \<Rightarrow> Inl e
           | Inr out' \<Rightarrow> merge_emit mk L rows out')"

definition merge_customs_row_aware ::
  "('p \<Rightarrow> error + 'p custom) \<Rightarrow> 'p shapely \<Rightarrow> 'p custom list \<Rightarrow> real \<Rightarrow> int \<Rightarrow>
   error + 'p custom list" where
  "merge_customs_row_aware mk L customs tol row_height =
     (if customs = [] then Inr []
      else case merge_group L row_height customs [] of
             Inl e \<Rightarrow> Inl e
           | Inr rows \<Rightarrow> merge_emit mk L rows [])"

partial_function (option) split_loop ::
  "('p \<Rightarrow> error + 'p custom) \<Rightarrow> 'p shapely \<Rightarrow> 'p \<Rightarrow> real \<Rightarrow> real \<Rightarrow> real \<Rightarrow> int \<Rightarrow> real \<Rightarrow>
   'p custom list \<Rightarrow> (error + 'p custom list) option" where
  "split_loop mk L poly miny maxx maxy max_w x0 out =
     (if x0 < maxx - COORD_EPS then
        let x1 = min (x0 + of_int max_w) maxx;
            strip = box L x0 miny x1 maxy;
            piece = buffer L (intersection L poly strip) 0
        in if \<not> is_empty L piece \<and> AREA_EPS < area L piece then
             (case mk piece of
                Inl e \<Rightarrow> Some (Inl e)
              | Inr c \<Rightarrow> split_loop mk L poly miny maxx maxy max_w x1 (out @ [c]))
           else split_loop mk L poly miny maxx maxy max_w x1 out
      else Some (Inr out))"

declare split_loop.simps [code]

fun split_for ::
  "('p \<Rightarrow> error + 'p custom) \<Rightarrow> 'p shapely \<Rightarrow> int \<Rightarrow> int \<Rightarrow> 'p custom list \<Rightarrow>
   'p custom list \<Rightarrow> (error + 'p custom list) option" where
  "split_for mk L max_w max_h [] out = Some (Inr out)"
| "split_for mk L max_w max_h (c # cs) out =
     (let w = py_round (c_width c);
          h = py_round (c_height c)
      in if w \<le> max_w + SCARTO_CUSTOM_MM \<and> h \<le> max_h + SCARTO_CUSTOM_MM then
           split_for mk L max_w max_h cs (out @ [c])
         else
           let poly = buffer L (c_geometry c) 0
           in if is_empty L poly \<or> area L poly \<le> AREA_EPS then
                split_for mk L max_w max_h cs out
              else
                (case bounds L poly of
                   (minx, miny, maxx, maxy) \<Rightarrow>
                     (case split_loop mk L poly miny maxx maxy max_w minx out of
                        None \<Rightarrow> None
                      | Some (Inl e) \<Rightarrow> Some (Inl e)
                      | Some (Inr out') \<Rightarrow> split_for mk L max_w max_h cs out')))"

definition split_out_of_spec ::
  "('p \<Rightarrow> error + 'p custom) \<Rightarrow> 'p shapely \<Rightarrow> 'p custom list \<Rightarrow> int \<Rightarrow> int \<Rightarrow>
   (error + 'p custom list) option" where
  "split_out_of_spec mk L customs max_w max_h = split_for mk L max_w max_h customs []"

definition tag_main :: "'p custom \<Rightarrow> 'p custom" where
  "tag_main c =
     (let w = py_round (c_width c);
          h = py_round (c_height c)
      in if 413 + SCARTO_CUSTOM_MM \<le> w \<or> 495 + SCARTO_CUSTOM_MM < h then
           c\<lparr>c_ctype := Some OutOfSpec\<rparr>
         else if \<bar>h - 495\<bar> \<le> SCARTO_CUSTOM_MM \<and> w < 413 + SCARTO_CUSTOM_MM then
           c\<lparr>c_ctype := Some CT1\<rparr>
         else c\<lparr>c_ctype := Some CT2\<rparr>)"

definition validate_and_tag_customs_main :: "'p custom list \<Rightarrow> 'p custom list" where
  "validate_and_tag_customs_main custom = map tag_main custom"

text \<open>The core module (wall\_builder.py, lines 557-584) takes the largest block width.\<close>

definition tag_core :: "'p custom \<Rightarrow> 'p custom" where
  "tag_core c =
     (let max_standard_width = Max (set BLOCK_WIDTHS);
          w = py_round (c_width c);
          h = py_round (c_height c)
      in if max_standard_width + SCARTO_CUSTOM_MM \<le> w \<or> 495 + SCARTO_CUSTOM_MM < h then
           c\<lparr>c_ctype := Some OutOfSpec\<rparr>
         else if \<bar>h - 495\<bar> \<le> SCARTO_CUSTOM_MM \<and> w \<le> max_standard_width + SCARTO_CUSTOM_MM
         then c\<lparr>c_ctype := Some CT1\<rparr>
         else c\<lparr>c_ctype := Some CT2\<rparr>)"

definition validate_and_tag_customs_core :: "'p custom list \<Rightarrow> 'p custom list" where
  "validate_and_tag_customs_core custom = map tag_core custom"

subsection \<open>Labels (main.py, lines 1884-1904)\<close>

definition letter_of :: "int \<Rightarrow> string" where
  "letter_of w =
     (case map_of SIZE_TO_LETTER w of
        Some l \<Rightarrow> l
      | None \<Rightarrow>
          (case map (\<lambda>(k, v). (\<bar>w - k\<bar>, v)) SIZE_TO_LETTER of
             t # ts \<Rightarrow> snd (py_min_key (\<lambda>t. of_int (fst t)) t ts)
           | [] \<Rightarrow> ''X''))"

fun std_labels :: "(string \<Rightarrow> nat) \<Rightarrow> placed_block list \<Rightarrow> string list" where
  "std_labels std_counters [] = []"
| "std_labels std_counters (blk # blks) =
     (let letter = letter_of (b_width blk);
          n = std_counters letter + 1
      in (letter @ str_nat n) # std_labels (std_counters(letter := n)) blks)"

definition custom_code :: "'p custom \<Rightarrow> string" where
  "custom_code c =
     (case c_ctype c of
        None \<Rightarrow> ''2''
      | Some CT1 \<Rightarrow> ''1''
      | Some CT2 \<Rightarrow> ''2''
      | Some OutOfSpec \<Rightarrow> ''X'')"

fun custom_labels :: "(string \<Rightarrow> nat) \<Rightarrow> 'p custom list \<Rightarrow> string list" where
  "custom_labels counts [] = []"
| "custom_labels counts (c # cs) =
     (let code = custom_code c;
          n = counts code + 1
      in (''CU'' @ code @ ''('' @ str_nat n @ '')'') # custom_labels (counts(code := n)) cs)"

text \<open>
  The two dictionaries \<^verbatim>\<open>{index: label}\<close> are returned as the lists of their values in
  index order.
\<close>

definition create_block_labels ::
  "placed_block list \<Rightarrow> 'p custom list \<Rightarrow> string list \<times> string list" where
  "create_block_labels placed custom =
     (std_labels (\<lambda>l. 0) placed, custom_labels (\<lambda>l. 0) custom)"

subsection \<open>pack\_wall of the monolith (main.py, lines 1416-1480)\<close>

definition offset_candidates :: "int \<Rightarrow> int option \<Rightarrow> int list" where
  "offset_candidates row row_offset =
     (if row mod 2 = 0 then [0] else [])
     @ (if row mod 2 = 1
        then (case row_offset of Some r \<Rightarrow> [r] | None \<Rightarrow> []) @ [413]
        else [])"

fun for_offsets_main ::
  "'p shapely \<Rightarrow> 'p \<Rightarrow> real \<Rightarrow> real \<Rightarrow> int list \<Rightarrow>
   placed_block list \<times> 'p custom list \<times> score \<Rightarrow>
   (error + placed_block list \<times> 'p custom list \<times> score) option" where
  "for_offsets_main L cmp y stripe_top [] best = Some (Inr best)"
| "for_offsets_main L cmp y stripe_top (off # offs) best =
     (case pack_segment_main L cmp y stripe_top BLOCK_WIDTHS off of
        None \<Rightarrow> None
      | Some (Inl e) \<Rightarrow> Some (Inl e)
      | Some (Inr (p_try, c_try)) \<Rightarrow>
          let score = score_solution L p_try c_try
          in if score_lt score (snd (snd best)) then
               for_offsets_main L cmp y stripe_top offs (p_try, c_try, score)
             else for_offsets_main L cmp y stripe_top offs best)"

text \<open>The body of \<^verbatim>\<open>for comp in comps\<close> for one component that is not skipped.\<close>

definition pack_component_main ::
  "'p shapely \<Rightarrow> 'p \<Rightarrow> real \<Rightarrow> real \<Rightarrow> int \<Rightarrow> int option \<Rightarrow>
   (error + placed_block list \<times> 'p custom list) option" where
  "pack_component_main L cmp y stripe_top row row_offset =
     (case for_offsets_main L cmp y stripe_top (offset_candidates row row_offset)
             ([], [], (10 ^ 9, None)) of
        None \<Rightarrow> None
      | Some (Inl e) \<Rightarrow> Some (Inl e)
      | Some (Inr (best_placed, best_custom, best_score)) \<Rightarrow>
          Some (Inr (best_placed, best_custom)))"

fun for_comps_main ::
  "'p shapely \<Rightarrow> real \<Rightarrow> real \<Rightarrow> int \<Rightarrow> int option \<Rightarrow> 'p list \<Rightarrow> placed_block list \<Rightarrow>
   'p custom list \<Rightarrow> (error + placed_block list \<times> 'p custom list) option" where
  "for_comps_main L y stripe_top row row_offset [] placed_all custom_all =
     Some (Inr (placed_all, custom_all))"
| "for_comps_main L y stripe_top row row_offset (cmp # comps) placed_all custom_all =
     (if is_empty L cmp \<or> area L cmp < AREA_EPS then
        for_comps_main L y stripe_top row row_offset comps placed_all custom_all
      else
        (case pack_component_main L cmp y stripe_top row row_offset of
           None \<Rightarrow> None
         | Some (Inl e) \<Rightarrow> Some (Inl e)
         | Some (Inr (best_placed, best_custom)) \<Rightarrow>
             for_comps_main L y stripe_top row row_offset comps
               (placed_all @ best_placed) (custom_all @ best_custom)))"

text \<open>\<^verbatim>\<open>if keepout:\<close> on an optional geometry: not \<^verbatim>\<open>None\<close> and not empty.\<close>

definition truthy :: "'p shapely \<Rightarrow> 'p option \<Rightarrow> bool" where
  "truthy L keepout = (case keepout of None \<Rightarrow> False | Some k \<Rightarrow> \<not> is_empty L k)"

definition stripe_comps :: "'p shapely \<Rightarrow> 'p \<Rightarrow> 'p option \<Rightarrow> real \<Rightarrow> real \<Rightarrow> real \<Rightarrow> real \<Rightarrow> 'p list"
  where
  "stripe_comps L polygon keepout minx y maxx stripe_top =
     (let stripe = box L minx y maxx stripe_top;
          inter = intersection L polygon stripe;
          inter' = (if truthy L keepout then difference L inter (the keepout) else inter)
      in ensure_multipolygon L inter')"

partial_function (option) rows_loop_main ::
  "'p shapely \<Rightarrow> 'p \<Rightarrow> 'p option \<Rightarrow> real \<Rightarrow> real \<Rightarrow> real \<Rightarrow> int \<Rightarrow> int option \<Rightarrow> real \<Rightarrow> int \<Rightarrow>
   placed_block list \<Rightarrow> 'p custom list \<Rightarrow> (error + placed_block list \<times> 'p custom list) option"
  where
  "rows_loop_main L polygon keepout minx maxx maxy block_height row_offset y row
     placed_all custom_all =
     (if y < maxy - COORD_EPS then
        let stripe_top = min (y + of_int block_height) maxy;
            comps = stripe_comps L polygon keepout minx y maxx stripe_top
        in case for_comps_main L y stripe_top row row_offset comps placed_all custom_all of
             None \<Rightarrow> None
           | Some (Inl e) \<Rightarrow> Some (Inl e)
           | Some (Inr (placed_all', custom_all')) \<Rightarrow>
               rows_loop_main L polygon keepout minx maxx maxy block_height row_offset
                 (snap (y + of_int block_height)) (row + 1) placed_all' custom_all'
      else Some (Inr (placed_all, custom_all)))"

declare rows_loop_main.simps [code]

text \<open>The last three lines of \<^verbatim>\<open>pack_wall\<close>: merge, split, tag.\<close>

definition postprocess_main ::
  "'p shapely \<Rightarrow> 'p custom list \<Rightarrow> (error + 'p custom list) option" where
  "postprocess_main L custom_all =
     (case merge_customs_row_aware (mk_custom_main L) L custom_all (of_int SCARTO_CUSTOM_MM)
             BLOCK_HEIGHT of
        Inl e \<Rightarrow> Some (Inl e)
      | Inr merged \<Rightarrow>
          (case split_out_of_spec (mk_custom_main L) L merged SPLIT_MAX_WIDTH_MM 495 of
             None \<Rightarrow> None
           | Some (Inl e) \<Rightarrow> Some (Inl e)
           | Some (Inr split) \<Rightarrow> Some (Inr (validate_and_tag_customs_main split))))"

definition pack_wall_main ::
  "'p shapely \<Rightarrow> 'p \<Rightarrow> int list \<Rightarrow> int \<Rightarrow> int option \<Rightarrow> 'p list \<Rightarrow>
   (error + placed_block list \<times> 'p custom list) option" where
  "pack_wall_main L polygon0 block_widths block_height row_offset apertures =
     (case sanitize_polygon L polygon0 of
        Inl e \<Rightarrow> Some (Inl e)
      | Inr polygon \<Rightarrow>
          let hole_polys = polygon_holes L polygon;
              ap_list = apertures;
              keepout =
                (if hole_polys \<noteq> [] \<or> ap_list \<noteq> [] then
                   let u = unary_union L (hole_polys @ ap_list)
                   in if \<not> is_empty L u then Some (buffer L u KEEP_OUT_MM) else None
                 else None)
          in case bounds L polygon of
               (minx, miny, maxx, maxy) \<Rightarrow>
                 (case rows_loop_main L polygon keepout minx maxx maxy block_height row_offset
                         miny 0 [] [] of
                    None \<Rightarrow> None
                  | Some (Inl e) \<Rightarrow> Some (Inl e)
                  | Some (Inr (placed_all, custom_all)) \<Rightarrow>
                      (case postprocess_main L custom_all of
                         None \<Rightarrow> None
                       | Some (Inl e) \<Rightarrow> Some (Inl e)
                       | Some (Inr tagged) \<Rightarrow> Some (Inr (placed_all, tagged)))))"

subsection \<open>The adaptive course of the core module (wall\_builder.py, lines 259-338)\<close>

definition adaptive_block :: "real \<Rightarrow> real \<Rightarrow> int \<Rightarrow> real \<Rightarrow> placed_block" where
  "adaptive_block x y best_width effective_height =
     \<lparr>b_type = ''adaptive_block_'' @ str_int best_width, b_width = best_width,
      b_height = snap effective_height, b_x = snap x, b_y = snap y\<rparr>"

partial_function (option) adaptive_loop ::
  "'p shapely \<Rightarrow> 'p \<Rightarrow> real \<Rightarrow> real \<Rightarrow> real \<Rightarrow> int list \<Rightarrow> real \<Rightarrow> placed_block list \<Rightarrow>
   (error + placed_block list) option" where
  "adaptive_loop L cmp y effective_height maxx widths_order x placed =
     (if x < maxx then
        let remaining_width = maxx - x;
            optimal_width = find (\<lambda>width. of_int width - 5 \<le> remaining_width) widths_order;
            best_width0 =
              (case optimal_width of
                 None \<Rightarrow> None
               | Some ow \<Rightarrow>
                   if x + of_int ow \<le> maxx
                      \<and> contains L cmp (box L x y (x + of_int ow) (y + effective_height))
                   then Some ow else None);
            best_width =
              (case best_width0 of
                 Some bw \<Rightarrow> Some bw
               | None \<Rightarrow>
                   find (\<lambda>width. x + of_int width \<le> maxx
                           \<and> contains L cmp (box L x y (x + of_int width) (y + effective_height)))
                     widths_order)
        in case best_width of
             Some bw \<Rightarrow>
               adaptive_loop L cmp y effective_height maxx widths_order (x + of_int bw)
                 (placed @ [adaptive_block x y bw effective_height])
           | None \<Rightarrow>
               if widths_order = [] then Some (Inl EmptySequence)
               else adaptive_loop L cmp y effective_height maxx widths_order
                      (x + of_int (Min (set widths_order))) placed
      else Some (Inr placed))"

declare adaptive_loop.simps [code]

definition pack_segment_with_order_adaptive ::
  "'p shapely \<Rightarrow> 'p \<Rightarrow> real \<Rightarrow> real \<Rightarrow> int list \<Rightarrow> real \<Rightarrow> int \<Rightarrow>
   (error + placed_block list \<times> 'p custom list) option" where
  "pack_segment_with_order_adaptive L cmp y stripe_top widths_order adaptive_height offset =
     (case bounds L cmp of
        (minx, miny0, maxx, maxy0) \<Rightarrow>
          let actual_height = stripe_top - y;
              effective_height = min adaptive_height actual_height
          in case adaptive_loop L cmp y effective_height maxx widths_order
                    (minx + of_int offset) [] of
               None \<Rightarrow> None
             | Some (Inl e) \<Rightarrow> Some (Inl e)
             | Some (Inr placed) \<Rightarrow>
                 let remaining =
                       fold (\<lambda>block r.
                               difference L r
                                 (box L (b_x block) (b_y block)
                                    (b_x block + of_int (b_width block))
                                    (b_y block + b_height block)))
                         placed cmp
                 in if AREA_EPS < area L remaining then
                      (if kind L remaining = Polygon then
                         (case mk_custom_core L remaining None of
                            Inl e \<Rightarrow> Some (Inl e)
                          | Inr c \<Rightarrow> Some (Inr (placed, [c])))
                       else
                         (case for_geoms (\<lambda>g. mk_custom_core L g None) L (geoms L remaining) [] of
                            Inl e \<Rightarrow> Some (Inl e)
                          | Inr custom \<Rightarrow> Some (Inr (placed, custom))))
                    else Some (Inr (placed, [])))"

subsection \<open>pack\_wall of the core module (wall\_builder.py, lines 341-503)\<close>

text \<open>
  Of the lines the function prints, the model keeps those that announce a course:
  \<open>FullCourse row y stripe_top\<close> for \<^verbatim>\<open>Processando riga\<close>, \<open>AdaptiveCourse row height\<close> for
  \<^verbatim>\<open>Riga adattiva\<close> and \<open>NoAdaptiveCourse remaining_space\<close> for
  \<^verbatim>\<open>Spazio rimanente ... insufficiente per riga adattiva\<close>.
\<close>

datatype course_event =
  FullCourse int real real | AdaptiveCourse int real | NoAdaptiveCourse real

text \<open>The aperture filter, lines 366-383.\<close>

fun for_apertures_core :: "'p shapely \<Rightarrow> real \<Rightarrow> 'p list \<Rightarrow> 'p list \<Rightarrow> error + 'p list" where
  "for_apertures_core L wall_area [] valid_apertures = Inr valid_apertures"
| "for_apertures_core L wall_area (ap # aps) valid_apertures =
     (let ap_area = area L ap
      in if wall_area = 0 then Inl ZeroDivisionError
         else
           let area_ratio = ap_area / wall_area
           in if 8 / 10 < area_ratio then for_apertures_core L wall_area aps valid_apertures
              else if ap_area < 1000 then for_apertures_core L wall_area aps valid_apertures
              else for_apertures_core L wall_area aps (valid_apertures @ [ap]))"

text \<open>
  The keep-out mask, lines 387-399. The percentage printed when the mask is not empty
  divides by the wall area.
\<close>

definition keepout_core :: "'p shapely \<Rightarrow> 'p \<Rightarrow> 'p list \<Rightarrow> 'p list \<Rightarrow> error + 'p option" where
  "keepout_core L polygon hole_polys valid_apertures =
     (if hole_polys \<noteq> [] \<or> valid_apertures \<noteq> [] then
        let u = unary_union L (hole_polys @ valid_apertures);
            keepout = (if \<not> is_empty L u then Some u else None)
        in if truthy L keepout \<and> area L polygon = 0 then Inl ZeroDivisionError
           else Inr keepout
      else Inr None)"

definition row_offset_core :: "int \<Rightarrow> int option \<Rightarrow> int list \<Rightarrow> error + int" where
  "row_offset_core row row_offset block_widths =
     (if row mod 2 = 0 then Inr 0
      else case row_offset of
             Some r \<Rightarrow> Inr r
           | None \<Rightarrow> if block_widths = [] then Inl EmptySequence
                     else Inr (Min (set block_widths)))"

fun for_comps_core ::
  "'p shapely \<Rightarrow> real \<Rightarrow> real \<Rightarrow> int \<Rightarrow> int option \<Rightarrow> int list \<Rightarrow> 'p list \<Rightarrow> placed_block list \<Rightarrow>
   'p custom list \<Rightarrow> (error + placed_block list \<times> 'p custom list) option" where
  "for_comps_core L y stripe_top row row_offset block_widths [] placed_all custom_all =
     Some (Inr (placed_all, custom_all))"
| "for_comps_core L y stripe_top row row_offset block_widths (cmp # comps) placed_all custom_all =
     (if is_empty L cmp \<or> area L cmp < AREA_EPS then
        for_comps_core L y stripe_top row row_offset block_widths comps placed_all custom_all
      else
        (case row_offset_core row row_offset block_widths of
           Inl e \<Rightarrow> Some (Inl e)
         | Inr offset \<Rightarrow>
             (case pack_segment_with_order_core L cmp y stripe_top (rev (sort block_widths))
                     offset of
                None \<Rightarrow> None
              | Some (Inl e) \<Rightarrow> Some (Inl e)
              | Some (Inr (placed_row, custom_row)) \<Rightarrow>
                  for_comps_core L y stripe_top row row_offset block_widths comps
                    (placed_all @ placed_row) (custom_all @ custom_row))))"

fun for_comps_adaptive ::
  "'p shapely \<Rightarrow> real \<Rightarrow> real \<Rightarrow> real \<Rightarrow> int \<Rightarrow> int option \<Rightarrow> int list \<Rightarrow> 'p list \<Rightarrow>
   placed_block list \<Rightarrow> 'p custom list \<Rightarrow>
   (error + placed_block list \<times> 'p custom list) option" where
  "for_comps_adaptive L y stripe_top adaptive_height row row_offset block_widths []
     placed_all custom_all = Some (Inr (placed_all, custom_all))"
| "for_comps_adaptive L y stripe_top adaptive_height row row_offset block_widths (cmp # comps)
     placed_all custom_all =
     (if is_empty L cmp \<or> area L cmp < AREA_EPS then
        for_comps_adaptive L y stripe_top adaptive_height row row_offset block_widths comps
          placed_all custom_all
      else
        (case row_offset_core row row_offset block_widths of
           Inl e \<Rightarrow> Some (Inl e)
         | Inr offset \<Rightarrow>
             (case pack_segment_with_order_adaptive L cmp y stripe_top
                     (rev (sort block_widths)) adaptive_height offset of
                None \<Rightarrow> None
              | Some (Inl e) \<Rightarrow> Some (Inl e)
              | Some (Inr (placed_row, custom_row)) \<Rightarrow>
                  for_comps_adaptive L y stripe_top adaptive_height row row_offset block_widths
                    comps (placed_all @ placed_row) (custom_all @ custom_row))))"

text \<open>
  Phase 1, \<^verbatim>\<open>while row < complete_rows\<close>. The result carries the events printed, the
  \<open>y\<close> and the \<open>row\<close> the loop ends with, and the two accumulators.
\<close>

function rows_loop_core ::
  "'p shapely \<Rightarrow> 'p \<Rightarrow> 'p option \<Rightarrow> real \<Rightarrow> real \<Rightarrow> int list \<Rightarrow> int \<Rightarrow> int option \<Rightarrow> int \<Rightarrow> real \<Rightarrow>
   int \<Rightarrow> course_event list \<Rightarrow> placed_block list \<Rightarrow> 'p custom list \<Rightarrow>
   (error + course_event list \<times> real \<times> int \<times> placed_block list \<times> 'p custom list) option"
  where
  "rows_loop_core L polygon keepout minx maxx block_widths block_height row_offset
     complete_rows y row events placed_all custom_all =
     (if row < complete_rows then
        let stripe_top = y + of_int block_height;
            comps = stripe_comps L polygon keepout minx y maxx stripe_top
        in case for_comps_core L y stripe_top row row_offset block_widths comps
                  placed_all custom_all of
             None \<Rightarrow> None
           | Some (Inl e) \<Rightarrow> Some (Inl e)
           | Some (Inr (placed_all', custom_all')) \<Rightarrow>
               rows_loop_core L polygon keepout minx maxx block_widths block_height row_offset
                 complete_rows (snap (y + of_int block_height)) (row + 1)
                 (events @ [FullCourse row y stripe_top]) placed_all' custom_all'
      else Some (Inr (events, y, row, placed_all, custom_all)))"
  by pat_completeness auto
termination
  by (relation "measure (\<lambda>(L, polygon, keepout, minx, maxx, block_widths, block_height,
        row_offset, complete_rows, y, row, events, placed_all, custom_all).
        nat (complete_rows - row))") auto

declare rows_loop_core.simps [simp del]

definition postprocess_core ::
  "'p shapely \<Rightarrow> 'p custom list \<Rightarrow> (error + 'p custom list) option" where
  "postprocess_core L custom_all =
     (case merge_customs_row_aware (\<lambda>g. mk_custom_core L g None) L custom_all
             (of_int SCARTO_CUSTOM_MM) BLOCK_HEIGHT of
        Inl e \<Rightarrow> Some (Inl e)
      | Inr merged \<Rightarrow>
          (case split_out_of_spec (\<lambda>g. mk_custom_core L g None) L merged SPLIT_MAX_WIDTH_MM 495
           of
             None \<Rightarrow> None
           | Some (Inl e) \<Rightarrow> Some (Inl e)
           | Some (Inr split) \<Rightarrow> Some (Inr (validate_and_tag_customs_core split))))"

text \<open>Phase 2, lines 462-499, from the state phase 1 ends with.\<close>

definition adaptive_phase_core ::
  "'p shapely \<Rightarrow> 'p \<Rightarrow> 'p option \<Rightarrow> real \<Rightarrow> real \<Rightarrow> int list \<Rightarrow> int \<Rightarrow> int option \<Rightarrow> real \<Rightarrow>
   course_event list \<times> real \<times> int \<times> placed_block list \<times> 'p custom list \<Rightarrow>
   (error + course_event list \<times> placed_block list \<times> 'p custom list) option" where
  "adaptive_phase_core L polygon keepout minx maxx block_widths block_height row_offset
     remaining_space st =
     (case st of
        (events, y, row, placed_all, custom_all) \<Rightarrow>
          if 150 \<le> remaining_space then
            let adaptive_height = min remaining_space (of_int block_height);
                stripe_top = y + adaptive_height;
                comps = stripe_comps L polygon keepout minx y maxx stripe_top
            in case for_comps_adaptive L y stripe_top adaptive_height row row_offset
                      block_widths comps placed_all custom_all of
                 None \<Rightarrow> None
               | Some (Inl e) \<Rightarrow> Some (Inl e)
               | Some (Inr (placed_all', custom_all')) \<Rightarrow>
                   Some (Inr (events @ [AdaptiveCourse row adaptive_height],
                              placed_all', custom_all'))
          else Some (Inr (events @ [NoAdaptiveCourse remaining_space], placed_all, custom_all)))"

definition pack_wall_core ::
  "'p shapely \<Rightarrow> 'p \<Rightarrow> int list \<Rightarrow> int \<Rightarrow> int option \<Rightarrow> 'p list \<Rightarrow>
   (error + course_event list \<times> placed_block list \<times> 'p custom list) option" where
  "pack_wall_core L polygon0 block_widths block_height row_offset apertures =
     (case sanitize_polygon L polygon0 of
        Inl e \<Rightarrow> Some (Inl e)
      | Inr polygon \<Rightarrow>
          let hole_polys = polygon_holes L polygon;
              ap_list = apertures;
              wall_area = area L polygon
          in case for_apertures_core L wall_area ap_list [] of
               Inl e \<Rightarrow> Some (Inl e)
             | Inr valid_apertures \<Rightarrow>
                 (case keepout_core L polygon hole_polys valid_apertures of
                    Inl e \<Rightarrow> Some (Inl e)
                  | Inr keepout \<Rightarrow>
                      (case bounds L polygon of
                         (minx, miny, maxx, maxy) \<Rightarrow>
                           let total_height = maxy - miny
                           in if block_height = 0 then Some (Inl ZeroDivisionError)
                              else
                                let complete_rows = py_int (total_height / of_int block_height);
                                    remaining_space =
                                      total_height - of_int (complete_rows * block_height)
                                in case rows_loop_core L polygon keepout minx maxx block_widths
                                          block_height row_offset complete_rows miny 0 []
                                          [] [] of
                                     None \<Rightarrow> None
                                   | Some (Inl e) \<Rightarrow> Some (Inl e)
                                   | Some (Inr st) \<Rightarrow>
                                       (case adaptive_phase_core L polygon keepout minx maxx
                                               block_widths block_height row_offset
                                               remaining_space st of
                                          None \<Rightarrow> None
                                        | Some (Inl e) \<Rightarrow> Some (Inl e)
                                        | Some (Inr (events, placed_all, custom_all)) \<Rightarrow>
                                            (case postprocess_core L custom_all of
                                               None \<Rightarrow> None
                                             | Some (Inl e) \<Rightarrow> Some (Inl e)
                                             | Some (Inr tagged) \<Rightarrow>
                                                 Some (Inr (events, placed_all, tagged)))))))"

subsection \<open>Notions used to state the properties of the custom pieces\<close>

text \<open>
  The numeric fields of a custom piece agree with its stored polygon: \<open>x\<close> and \<open>y\<close> are the
  snapped minimum corner of the polygon's bounding box, \<open>width\<close> and \<open>height\<close> the snapped
  extents of that box.
\<close>

definition bbox_consistent :: "'p shapely \<Rightarrow> 'p custom \<Rightarrow> bool" where
  "bbox_consistent L c =
     (case bounds L (c_geometry c) of
        (minx, miny, maxx, maxy) \<Rightarrow>
          c_x c = snap minx \<and> c_y c = snap miny
          \<and> c_width c = snap (maxx - minx) \<and> c_height c = snap (maxy - miny))"

text \<open>
  An assumption on the geometry library, true of exact polygon clipping: a polygon cut to
  the strip between \<open>x0\<close> and \<open>x1\<close>, buffered by 0 and sanitized as \<^verbatim>\<open>split_out_of_spec\<close> and
  \<^verbatim>\<open>_mk_custom\<close> do, has a bounding box no wider than the strip.
\<close>

definition clip_within :: "'p shapely \<Rightarrow> bool" where
  "clip_within L =
     (\<forall>p x0 y0 x1 y1 g.
        x0 \<le> x1
        \<and> sanitize_polygon L (buffer L (intersection L p (box L x0 y0 x1 y1)) 0) = Inr g
        \<longrightarrow> (case bounds L g of (minx, miny, maxx, maxy) \<Rightarrow> maxx - minx \<le> x1 - x0))"

definition MAX_STD_WIDTH :: int where
  "MAX_STD_WIDTH = Max (set BLOCK_WIDTHS)"




text \<open>The areas the coverage property adds up.\<close>

definition placed_area :: "placed_block list \<Rightarrow> real" where
  "placed_area placed = sum_list (map (\<lambda>b. of_int (b_width b) * b_height b) placed)"

definition custom_area :: "'p shapely \<Rightarrow> 'p custom list \<Rightarrow> real" where
  "custom_area L customs = sum_list (map (\<lambda>c. area L (c_geometry c)) customs)"

text \<open>
  The residual of the wall \<open>[0, 500] \<times> [0, 495]\<close> right of one block of 413, as main.py
  builds it.
\<close>

definition residual_87 :: "rect list custom" where
  "residual_87 =
     \<lparr>c_type = ''custom'', c_width = 87, c_height = 495, c_x = 413, c_y = 0,
      c_geometry = [(413, 0, 500, 495)], c_source_block_width = None, c_waste = None,
      c_ctype = None\<rparr>"


text \<open>The same residual as the core module builds it after merging and tagging.\<close>

definition residual_87_core :: "rect list custom" where
  "residual_87_core =
     \<lparr>c_type = ''custom'', c_width = 87, c_height = 495, c_x = 413, c_y = 0,
      c_geometry = [(413, 0, 500, 495)], c_source_block_width = Some 87, c_waste = Some 0,
      c_ctype = Some CT1\<rparr>"



text \<open>The test an aperture passes to enter the keep-out mask (wall\_builder.py, 374-382).\<close>

definition aperture_kept :: "'p shapely \<Rightarrow> real \<Rightarrow> 'p \<Rightarrow> bool" where
  "aperture_kept L wall_area a = (1000 \<le> area L a \<and> area L a / wall_area \<le> 8 / 10)"



text \<open>
  \<^verbatim>\<open>pack_wall\<close> of the core module from line 401 on, as a function of the sanitized wall and
  of the keep-out mask of lines 387-391: the bounds, the full courses, the adaptive course
  and the post-processing.
\<close>

definition pack_rows_core ::
  "'p shapely \<Rightarrow> 'p \<Rightarrow> 'p option \<Rightarrow> int list \<Rightarrow> int \<Rightarrow> int option \<Rightarrow>
   (error + course_event list \<times> placed_block list \<times> 'p custom list) option" where
  "pack_rows_core L polygon keepout block_widths block_height row_offset =
     (case bounds L polygon of
        (minx, miny, maxx, maxy) \<Rightarrow>
          let total_height = maxy - miny
          in if block_height = 0 then Some (Inl ZeroDivisionError)
             else
               let complete_rows = py_int (total_height / of_int block_height);
                   remaining_space = total_height - of_int (complete_rows * block_height)
               in case rows_loop_core L polygon keepout minx maxx block_widths block_height
                         row_offset complete_rows miny 0 [] [] [] of
                    None \<Rightarrow> None
                  | Some (Inl e) \<Rightarrow> Some (Inl e)
                  | Some (Inr st) \<Rightarrow>
                      (case adaptive_phase_core L polygon keepout minx maxx block_widths
                              block_height row_offset remaining_space st of
                         None \<Rightarrow> None
                       | Some (Inl e) \<Rightarrow> Some (Inl e)
                       | Some (Inr (events, placed_all, custom_all)) \<Rightarrow>
                           (case postprocess_core L custom_all of
                              None \<Rightarrow> None
                            | Some (Inl e) \<Rightarrow> Some (Inl e)
                            | Some (Inr tagged) \<Rightarrow> Some (Inr (events, placed_all, tagged)))))"

text \<open>
  The region library for examples whose regions are connected: every region answers the
  \<^verbatim>\<open>isinstance\<close> tests as one polygon, and \<open>buffer\<close> moves the four sides of every rectangle
  outwards by the distance. shapely rounds the corners of a buffered shape; the example
  with a buffered aperture keeps them outside the wall.
\<close>

definition solid_lib :: "rect list shapely" where
  "solid_lib =
     region_lib\<lparr>buffer := (\<lambda>r d. map (\<lambda>(a, b, c, e). (a - d, b - d, c + d, e + d)) r),
                kind := (\<lambda>r. Polygon)\<rparr>"




text \<open>
  A wall 418 wide and 495 high with a notch 100 wide and 100 high cut from its upper edge;
  the two custom pieces the segment packer of main.py cuts from it, and the piece
  \<^verbatim>\<open>merge_customs_row_aware\<close> unites them into.
\<close>

definition notched_wall :: "rect list" where
  "notched_wall = [(0, 0, 418, 395), (0, 395, 100, 495), (200, 395, 418, 495)]"

definition wall_piece_413 :: "rect list custom" where
  "wall_piece_413 =
     \<lparr>c_type = ''custom'', c_width = 413, c_height = 495, c_x = 0, c_y = 0,
      c_geometry = [(0, 0, 413, 395), (0, 395, 100, 495), (200, 395, 413, 495)],
      c_source_block_width = None, c_waste = None, c_ctype = None\<rparr>"

definition wall_piece_5 :: "rect list custom" where
  "wall_piece_5 =
     \<lparr>c_type = ''custom'', c_width = 5, c_height = 495, c_x = 413, c_y = 0,
      c_geometry = [(413, 0, 418, 395), (413, 395, 418, 495)],
      c_source_block_width = None, c_waste = None, c_ctype = None\<rparr>"

definition wall_piece_418 :: "rect list custom" where
  "wall_piece_418 =
     \<lparr>c_type = ''custom'', c_width = 418, c_height = 495, c_x = 0, c_y = 0,
      c_geometry = [(0, 0, 413, 395), (0, 395, 100, 495), (200, 395, 413, 495),
                    (413, 0, 418, 395), (413, 395, 418, 495)],
      c_source_block_width = None, c_waste = None, c_ctype = Some OutOfSpec\<rparr>"

section \<open>Properties\<close>

subsection \<open>Evaluation helpers\<close>

lemma py_round_of_int: "py_round (of_int n) = n"
  by (simp add: py_round_def)

lemma snap_of_int: "snap (of_int n) = of_int n"
  by (simp add: snap_def SNAP_MM_def py_round_of_int)

lemma snap_numeral: "snap (numeral n) = numeral n"
  using snap_of_int [of "numeral n"] by simp

lemma snap_zero: "snap 0 = 0"
  using snap_of_int [of 0] by simp

lemmas cfg_defs = AREA_EPS_def COORD_EPS_def SNAP_MM_def MICRO_REST_MM_def BLOCK_HEIGHT_def

lemma region_sel:
  "is_valid region_lib r = True"
  "is_empty region_lib r = (r = [])"
  "area region_lib r = sum_list (map rect_area r)"
  "bounds region_lib = region_bounds"
  "buffer region_lib r d = r"
  "box region_lib a b c d = [(a, b, c, d)]"
  "intersection region_lib = region_intersection"
  "difference region_lib = region_difference"
  "unary_union region_lib = region_union"
  "contains region_lib r s = (region_difference s r = [])"
  "kind region_lib r = (case r of [] \<Rightarrow> Polygon | [p] \<Rightarrow> Polygon | p # q # qs \<Rightarrow> MultiPolygon)"
  "geoms region_lib r = map (\<lambda>p. [p]) r"
  "interiors region_lib r = []"
  by (simp_all add: region_lib_def)

lemmas region_defs = region_sel region_intersection_def rect_clip_def rect_proper_def
  rect_area_def

lemmas eval_defs = sanitize_polygon_def polygon_holes_def stripe_comps_def truthy_def
  ensure_multipolygon_def score_solution_def score_lt_def float_lt_def isclose_def
  merge_customs_row_aware_def split_out_of_spec_def region_difference_def region_union_def
  rect_minus_def Let_def SCARTO_CUSTOM_MM_def SPLIT_MAX_WIDTH_MM_def

lemma py_round_le: "v \<le> of_int n \<Longrightarrow> py_round v \<le> n"
proof -
  assume le: "v \<le> of_int n"
  have fl: "\<lfloor>v\<rfloor> \<le> n" using le by (simp add: floor_le_iff)
  show ?thesis
  proof (cases "\<lfloor>v\<rfloor> < n")
    case True
    then show ?thesis by (auto simp: py_round_def Let_def)
  next
    case False
    with fl have eq: "\<lfloor>v\<rfloor> = n" by simp
    have "of_int \<lfloor>v\<rfloor> \<le> v" by simp
    with le eq have "v = of_int n" by simp
    then show ?thesis by (simp add: py_round_of_int)
  qed
qed

lemma snap_eq: "snap v = of_int (py_round v)"
  by (simp add: snap_def SNAP_MM_def)

lemma py_round_snap: "py_round (snap v) = py_round v"
  by (simp add: snap_eq py_round_of_int)

subsection \<open>Invariants of the post-processing\<close>

lemma mk_custom_main_consistent: "mk_custom_main L g = Inr c \<Longrightarrow> bbox_consistent L c"
  by (auto simp: mk_custom_main_def bbox_consistent_def split: sum.splits prod.splits)

lemma mk_custom_core_consistent: "mk_custom_core L g ws = Inr c \<Longrightarrow> bbox_consistent L c"
  by (auto simp: mk_custom_core_def bbox_consistent_def Let_def split: sum.splits prod.splits)

lemma for_geoms_inv:
  "\<forall>g c. mk g = Inr c \<longrightarrow> Q c \<Longrightarrow> for_geoms mk L gs out = Inr out' \<Longrightarrow>
   list_all Q out \<Longrightarrow> list_all Q out'"
  by (induction gs arbitrary: out) (auto split: if_splits sum.splits)

lemma merge_emit_inv:
  "\<forall>g c. mk g = Inr c \<longrightarrow> Q c \<Longrightarrow> merge_emit mk L rows out = Inr out' \<Longrightarrow>
   list_all Q out \<Longrightarrow> list_all Q out'"
proof (induction rows arbitrary: out)
  case Nil
  then show ?case by simp
next
  case (Cons r rows)
  obtain rid polys where r: "r = (rid, polys)" by (cases r)
  show ?case
  proof (cases "polys = []")
    case True
    with Cons r show ?thesis by simp
  next
    case False
    define gs where
      "gs = (if kind L (unary_union L polys) = Polygon then [unary_union L polys]
             else geoms L (unary_union L polys))"
    from Cons.prems(2) False r obtain mid where
      mid: "for_geoms mk L gs out = Inr mid" and rest: "merge_emit mk L rows mid = Inr out'"
      by (auto simp: gs_def Let_def split: sum.splits)
    have "list_all Q mid"
      using for_geoms_inv [OF Cons.prems(1) mid Cons.prems(3)] .
    then show ?thesis
      using Cons.IH [OF Cons.prems(1) rest] by simp
  qed
qed

lemma merge_customs_row_aware_inv:
  "\<forall>g c. mk g = Inr c \<longrightarrow> Q c \<Longrightarrow>
   merge_customs_row_aware mk L customs tol row_height = Inr out \<Longrightarrow> list_all Q out"
  by (auto simp: merge_customs_row_aware_def split: if_splits sum.splits
      dest: merge_emit_inv [where out = "[]"])

lemma split_loop_inv:
  assumes run: "split_loop mk L poly miny maxx maxy max_w x0 out = Some r"
  shows "(\<forall>x c. x < maxx - COORD_EPS
              \<and> mk (buffer L (intersection L poly
                       (box L x miny (min (x + of_int max_w) maxx) maxy)) 0) = Inr c
              \<longrightarrow> Q c) \<longrightarrow>
         (\<forall>out'. r = Inr out' \<longrightarrow> list_all Q out \<longrightarrow> list_all Q out')"
  by (rule split_loop.raw_induct
      [where P = "\<lambda>mk L poly miny maxx maxy max_w x0 out r.
         (\<forall>x c. x < maxx - COORD_EPS
              \<and> mk (buffer L (intersection L poly
                       (box L x miny (min (x + of_int max_w) maxx) maxy)) 0) = Inr c
              \<longrightarrow> Q c) \<longrightarrow>
         (\<forall>out'. r = Inr out' \<longrightarrow> list_all Q out \<longrightarrow> list_all Q out')",
       OF _ run])
    (fastforce simp: Let_def split: if_splits sum.splits)

lemma split_for_inv:
  assumes mk: "\<And>poly miny maxx maxy x c.
      x < maxx - COORD_EPS \<Longrightarrow>
      mk (buffer L (intersection L poly
            (box L x miny (min (x + of_int max_w) maxx) maxy)) 0) = Inr c \<Longrightarrow> Q c"
    and pass: "\<And>c. c \<in> set customs \<Longrightarrow> py_round (c_width c) \<le> max_w + SCARTO_CUSTOM_MM \<Longrightarrow>
      py_round (c_height c) \<le> max_h + SCARTO_CUSTOM_MM \<Longrightarrow> Q c"
  shows "split_for mk L max_w max_h customs out = Some (Inr out') \<Longrightarrow> list_all Q out \<Longrightarrow>
         list_all Q out'"
  using pass
proof (induction customs arbitrary: out)
  case Nil
  then show ?case by simp
next
  case (Cons c cs)
  have passcs: "\<And>d. d \<in> set cs \<Longrightarrow> py_round (c_width d) \<le> max_w + SCARTO_CUSTOM_MM \<Longrightarrow>
      py_round (c_height d) \<le> max_h + SCARTO_CUSTOM_MM \<Longrightarrow> Q d"
    using Cons.prems(3) by simp
  show ?case
  proof (cases "py_round (c_width c) \<le> max_w + SCARTO_CUSTOM_MM
                \<and> py_round (c_height c) \<le> max_h + SCARTO_CUSTOM_MM")
    case True
    then have "Q c" using Cons.prems(3) by simp
    with True Cons.prems(1,2) Cons.IH [of "out @ [c]", OF _ _ passcs] show ?thesis
      by (simp add: Let_def)
  next
    case False
    define poly where "poly = buffer L (c_geometry c) 0"
    show ?thesis
    proof (cases "is_empty L poly \<or> area L poly \<le> AREA_EPS")
      case True
      with False Cons.prems(1,2) Cons.IH [of out, OF _ _ passcs] show ?thesis
        by (auto simp: Let_def poly_def)
    next
      case nonempty: False
      obtain minx miny maxx maxy where b: "bounds L poly = (minx, miny, maxx, maxy)"
        by (cases "bounds L poly")
      from False nonempty Cons.prems(1) b obtain mid where
        mid: "split_loop mk L poly miny maxx maxy max_w minx out = Some (Inr mid)"
        and rest: "split_for mk L max_w max_h cs mid = Some (Inr out')"
        by (auto simp: Let_def poly_def split: option.splits sum.splits)
      have "list_all Q mid"
        using split_loop_inv [OF mid, of Q] mk Cons.prems(2) by blast
      then show ?thesis
        using Cons.IH [OF rest _ passcs] by simp
    qed
  qed
qed

subsection \<open>The core segment packer, one cursor position at a time\<close>







subsection \<open>Evaluating the packer on rectangular walls\<close>


lemma seg_main_500_a:
  "pack_segment_with_order_main region_lib [(0, 0, 500, 495)] 0 495 [1239, 826, 413] 0
   = Some (Inr ([mk_std 0 0 413 495], [residual_87]))"
  by (simp add: pack_segment_with_order_main_def segment_loop_main.simps mk_custom_main_def
      residual_87_def cfg_defs region_defs eval_defs snap_numeral snap_zero)

lemma seg_main_500_b:
  "pack_segment_with_order_main region_lib [(0, 0, 500, 495)] 0 495 [826, 1239, 413] 0
   = Some (Inr ([mk_std 0 0 413 495], [residual_87]))"
  by (simp add: pack_segment_with_order_main_def segment_loop_main.simps mk_custom_main_def
      residual_87_def cfg_defs region_defs eval_defs snap_numeral snap_zero)

lemma comp_main_500:
  "pack_component_main region_lib [(0, 0, 500, 495)] 0 495 0 (Some 826)
   = Some (Inr ([mk_std 0 0 413 495], [residual_87]))"
  by (simp add: pack_component_main_def offset_candidates_def pack_segment_main_def
      BLOCK_ORDERS_def seg_main_500_a seg_main_500_b eval_defs)

lemma run_main_500:
  "pack_wall_main region_lib [(0, 0, 500, 495)] [1239, 826, 413] 495 (Some 826) []
   = Some (Inr ([mk_std 0 0 413 495], [residual_87\<lparr>c_ctype := Some CT1\<rparr>]))"
  by (simp add: pack_wall_main_def rows_loop_main.simps comp_main_500 postprocess_main_def
      validate_and_tag_customs_main_def tag_main_def split_loop.simps mk_custom_main_def
      py_round_def residual_87_def cfg_defs region_defs eval_defs snap_numeral snap_zero)



lemma seg_core_500:
  "pack_segment_with_order_core region_lib [(0, 0, 500, 495)] 0 495 [1239, 826, 413] 0
   = Some (Inr ([mk_std 0 0 413 495],
        [residual_87_core\<lparr>c_source_block_width := Some 413, c_waste := Some 326,
           c_ctype := None\<rparr>]))"
  by (simp add: pack_segment_with_order_core_def greedy_loop_core.simps mk_custom_core_def
      choose_optimal_source_block_for_custom_def residual_87_core_def
      cfg_defs region_defs eval_defs snap_numeral snap_zero)

lemma run_core_500:
  "pack_wall_core region_lib [(0, 0, 500, 495)] [1239, 826, 413] 495 (Some 826) []
   = Some (Inr ([FullCourse 0 0 495, NoAdaptiveCourse 0], [mk_std 0 0 413 495],
        [residual_87_core]))"
  by (simp add: pack_wall_core_def keepout_core_def py_int_def rows_loop_core.simps
      row_offset_core_def seg_core_500 adaptive_phase_core_def postprocess_core_def
      validate_and_tag_customs_core_def tag_core_def split_loop.simps mk_custom_core_def
      py_round_def residual_87_core_def BLOCK_WIDTHS_def
      cfg_defs region_defs eval_defs snap_numeral snap_zero)

lemma seg_core_423:
  "pack_segment_with_order_core region_lib [(0, 0, 423, 495)] 0 495 [1239, 826, 413] 0
   = Some (Inr ([mk_std 0 0 413 495], []))"
  by (simp add: pack_segment_with_order_core_def greedy_loop_core.simps
      cfg_defs region_defs eval_defs snap_numeral snap_zero)

lemma run_core_423:
  "pack_wall_core region_lib [(0, 0, 423, 495)] [1239, 826, 413] 495 (Some 826) []
   = Some (Inr ([FullCourse 0 0 495, NoAdaptiveCourse 0], [mk_std 0 0 413 495], []))"
  by (simp add: pack_wall_core_def keepout_core_def py_int_def rows_loop_core.simps
      row_offset_core_def seg_core_423 adaptive_phase_core_def postprocess_core_def
      validate_and_tag_customs_core_def
      cfg_defs region_defs eval_defs snap_numeral snap_zero)













text \<open>Runs of main.py with the library for connected regions.\<close>

lemma solid_sel:
  "is_valid solid_lib r = True"
  "is_empty solid_lib r = (r = [])"
  "area solid_lib r = sum_list (map rect_area r)"
  "bounds solid_lib = region_bounds"
  "buffer solid_lib r d = map (\<lambda>(a, b, c, e). (a - d, b - d, c + d, e + d)) r"
  "box solid_lib a b c d = [(a, b, c, d)]"
  "intersection solid_lib = region_intersection"
  "difference solid_lib = region_difference"
  "unary_union solid_lib = region_union"
  "kind solid_lib r = Polygon"
  "interiors solid_lib r = []"
  by (simp_all add: solid_lib_def region_lib_def)

lemmas solid_defs = solid_sel region_intersection_def rect_clip_def rect_proper_def
  rect_area_def

lemma seg_main_solid_500_a:
  "pack_segment_with_order_main solid_lib [(0, 0, 500, 495)] 0 495 [1239, 826, 413] 0
   = Some (Inr ([mk_std 0 0 413 495], [residual_87]))"
  by (simp add: pack_segment_with_order_main_def segment_loop_main.simps mk_custom_main_def
      residual_87_def cfg_defs solid_defs eval_defs snap_numeral snap_zero)

lemma seg_main_solid_500_b:
  "pack_segment_with_order_main solid_lib [(0, 0, 500, 495)] 0 495 [826, 1239, 413] 0
   = Some (Inr ([mk_std 0 0 413 495], [residual_87]))"
  by (simp add: pack_segment_with_order_main_def segment_loop_main.simps mk_custom_main_def
      residual_87_def cfg_defs solid_defs eval_defs snap_numeral snap_zero)

lemma comp_main_solid_500:
  "pack_component_main solid_lib [(0, 0, 500, 495)] 0 495 0 (Some 826)
   = Some (Inr ([mk_std 0 0 413 495], [residual_87]))"
  by (simp add: pack_component_main_def offset_candidates_def pack_segment_main_def
      BLOCK_ORDERS_def seg_main_solid_500_a seg_main_solid_500_b eval_defs)

lemma run_main_solid_500:
  "pack_wall_main solid_lib [(0, 0, 500, 495)] [1239, 826, 413] 495 (Some 826) []
   = Some (Inr ([mk_std 0 0 413 495], [residual_87\<lparr>c_ctype := Some CT1\<rparr>]))"
  by (simp add: pack_wall_main_def rows_loop_main.simps comp_main_solid_500 postprocess_main_def
      validate_and_tag_customs_main_def tag_main_def split_loop.simps mk_custom_main_def
      py_round_def residual_87_def cfg_defs solid_defs eval_defs snap_numeral snap_zero)

lemma run_main_solid_covered:
  "pack_wall_main solid_lib [(0, 0, 500, 495)] [1239, 826, 413] 495 (Some 826)
     [[(- 10, - 10, 510, 505)]]
   = Some (Inr ([], []))"
  by (simp add: pack_wall_main_def rows_loop_main.simps postprocess_main_def
      validate_and_tag_customs_main_def KEEP_OUT_MM_def
      cfg_defs solid_defs eval_defs snap_numeral snap_zero)

text \<open>The notched wall 418 wide in main.py.\<close>

lemma seg_main_notched_a:
  "pack_segment_with_order_main solid_lib notched_wall 0 495 [1239, 826, 413] 0
   = Some (Inr ([], [wall_piece_413, wall_piece_5]))"
  by (simp add: pack_segment_with_order_main_def segment_loop_main.simps try_fill_def
      try_fill_loop.simps mk_custom_main_def notched_wall_def wall_piece_413_def
      wall_piece_5_def cfg_defs solid_defs eval_defs snap_numeral snap_zero)

lemma seg_main_notched_b:
  "pack_segment_with_order_main solid_lib notched_wall 0 495 [826, 1239, 413] 0
   = Some (Inr ([], [wall_piece_413, wall_piece_5]))"
  by (simp add: pack_segment_with_order_main_def segment_loop_main.simps try_fill_def
      try_fill_loop.simps mk_custom_main_def notched_wall_def wall_piece_413_def
      wall_piece_5_def cfg_defs solid_defs eval_defs snap_numeral snap_zero)

lemma comp_main_notched:
  "pack_component_main solid_lib notched_wall 0 495 0 (Some 826)
   = Some (Inr ([], [wall_piece_413, wall_piece_5]))"
  by (simp add: pack_component_main_def offset_candidates_def pack_segment_main_def
      BLOCK_ORDERS_def seg_main_notched_a seg_main_notched_b eval_defs
      wall_piece_413_def wall_piece_5_def solid_defs)

lemma post_main_notched:
  "postprocess_main solid_lib [wall_piece_413, wall_piece_5] = Some (Inr [wall_piece_418])"
  by (simp add: postprocess_main_def validate_and_tag_customs_main_def tag_main_def
      mk_custom_main_def py_round_def wall_piece_413_def wall_piece_5_def wall_piece_418_def
      cfg_defs solid_defs eval_defs snap_numeral snap_zero)

lemma stripe_notched:
  "stripe_comps solid_lib notched_wall None 0 0 418 495 = [notched_wall]"
  by (simp add: notched_wall_def solid_defs eval_defs)

lemma run_main_notched:
  "pack_wall_main solid_lib notched_wall [1239, 826, 413] 495 (Some 826) []
   = Some (Inr ([], [wall_piece_418]))"
proof -
  have s: "sanitize_polygon solid_lib notched_wall = Inr notched_wall"
    by (simp add: sanitize_polygon_def solid_sel)
  have b: "region_bounds notched_wall = (0, 0, 418, 495)"
    by (simp add: notched_wall_def)
  have ne: "\<not> (is_empty solid_lib notched_wall \<or> area solid_lib notched_wall < AREA_EPS)"
    by (simp add: notched_wall_def cfg_defs solid_defs)
  have rows: "rows_loop_main solid_lib notched_wall None 0 418 495 495 (Some 826) 0 0 [] []
              = Some (Inr ([], [wall_piece_413, wall_piece_5]))"
    using ne
    by (simp add: rows_loop_main.simps stripe_notched comp_main_notched cfg_defs
        snap_numeral snap_zero)
  show ?thesis
    by (simp add: pack_wall_main_def s b rows post_main_notched polygon_holes_def solid_sel)
qed





subsection \<open>Sanitizing and failure\<close>



subsection \<open>The fields of a custom piece and its polygon\<close>

lemma tag_main_consistent: "bbox_consistent L (tag_main c) = bbox_consistent L c"
  by (simp add: tag_main_def bbox_consistent_def Let_def)

lemma tag_core_consistent: "bbox_consistent L (tag_core c) = bbox_consistent L c"
  by (simp add: tag_core_def bbox_consistent_def Let_def)

lemma postprocess_main_consistent:
  assumes "postprocess_main L custom_all = Some (Inr customs)"
  shows "list_all (bbox_consistent L) customs"
proof -
  from assms obtain merged split where
    m: "merge_customs_row_aware (mk_custom_main L) L custom_all (of_int SCARTO_CUSTOM_MM)
          BLOCK_HEIGHT = Inr merged"
    and s: "split_for (mk_custom_main L) L SPLIT_MAX_WIDTH_MM 495 merged [] = Some (Inr split)"
    and c: "customs = validate_and_tag_customs_main split"
    by (auto simp: postprocess_main_def split_out_of_spec_def
        split: sum.splits option.splits)
  have mk: "\<forall>g c. mk_custom_main L g = Inr c \<longrightarrow> bbox_consistent L c"
    by (intro allI impI) (rule mk_custom_main_consistent)
  have "list_all (bbox_consistent L) merged"
    using merge_customs_row_aware_inv [OF mk m] .
  then have in_merged: "\<And>c. c \<in> set merged \<Longrightarrow> bbox_consistent L c"
    by (simp add: list_all_iff)
  have "list_all (bbox_consistent L) split"
    by (rule split_for_inv [OF _ _ s]) (auto intro: mk_custom_main_consistent in_merged)
  then show ?thesis
    by (simp add: c validate_and_tag_customs_main_def list_all_iff tag_main_consistent)
qed

text \<open>
  C10. Every custom piece in the output of \<^verbatim>\<open>pack_wall\<close> (main.py) has \<open>x\<close> and \<open>y\<close> equal to
  the snapped minimum corner of the bounding box of its stored polygon, and \<open>width\<close> and
  \<open>height\<close> equal to the snapped extents of that box.
\<close>

theorem custom_fields_agree_with_geometry:
  assumes "pack_wall_main L polygon block_widths block_height row_offset apertures
           = Some (Inr (placed, customs))"
    and "c \<in> set customs"
  shows "bbox_consistent L c"
proof -
  from assms(1) obtain custom_all where
    "postprocess_main L custom_all = Some (Inr customs)"
    by (auto simp: pack_wall_main_def Let_def split: sum.splits option.splits prod.splits)
  from postprocess_main_consistent [OF this] assms(2) show ?thesis
    by (simp add: list_all_iff)
qed

theorem custom_fields_agree_with_geometry_witness:
  "pack_wall_main region_lib [(0, 0, 500, 495)] [1239, 826, 413] 495 (Some 826) []
   = Some (Inr ([mk_std 0 0 413 495], [residual_87\<lparr>c_ctype := Some CT1\<rparr>]))
   \<and> residual_87\<lparr>c_ctype := Some CT1\<rparr> \<in> set [residual_87\<lparr>c_ctype := Some CT1\<rparr>]
   \<and> bbox_consistent region_lib (residual_87\<lparr>c_ctype := Some CT1\<rparr>)
   \<and> bounds region_lib (c_geometry (residual_87\<lparr>c_ctype := Some CT1\<rparr>)) = (413, 0, 500, 495)
   \<and> c_x (residual_87\<lparr>c_ctype := Some CT1\<rparr>) = 413
   \<and> c_width (residual_87\<lparr>c_ctype := Some CT1\<rparr>) = 87"
proof -
  have m: "residual_87\<lparr>c_ctype := Some CT1\<rparr> \<in> set [residual_87\<lparr>c_ctype := Some CT1\<rparr>]"
    by simp
  have "bbox_consistent region_lib (residual_87\<lparr>c_ctype := Some CT1\<rparr>)"
    using custom_fields_agree_with_geometry [OF run_main_500 m] .
  with run_main_500 m show ?thesis
    by (simp add: residual_87_def region_sel)
qed

subsection \<open>Classification of the custom pieces\<close>

lemma mk_custom_core_width:
  assumes "mk_custom_core L g0 ws = Inr c"
  shows "\<exists>g mn a mx b. sanitize_polygon L g0 = Inr g \<and> bounds L g = (mn, a, mx, b)
           \<and> c_width c = snap (mx - mn)"
  using assms
  by (auto simp: mk_custom_core_def Let_def split: sum.splits prod.splits)

lemma strip_piece_narrow:
  assumes cw: "clip_within L"
    and x: "x < maxx - COORD_EPS"
    and w: "0 \<le> max_w"
    and mk: "mk_custom_core L (buffer L (intersection L poly
               (box L x miny (min (x + of_int max_w) maxx) maxy)) 0) ws = Inr c"
  shows "py_round (c_width c) \<le> max_w"
proof -
  from mk_custom_core_width [OF mk] obtain g mn a mx b where
    s: "sanitize_polygon L (buffer L (intersection L poly
               (box L x miny (min (x + of_int max_w) maxx) maxy)) 0) = Inr g"
    and b: "bounds L g = (mn, a, mx, b)" and cw': "c_width c = snap (mx - mn)"
    by blast
  have le: "x \<le> min (x + of_int max_w) maxx"
    using x w by (simp add: COORD_EPS_def)
  from cw [unfolded clip_within_def, rule_format, of x "min (x + of_int max_w) maxx" poly miny maxy g]
    le s b
  have "mx - mn \<le> min (x + of_int max_w) maxx - x" by simp
  then have "mx - mn \<le> of_int max_w" by simp
  then show ?thesis
    by (simp add: cw' py_round_snap py_round_le)
qed

lemma postprocess_core_inv:
  assumes cw: "clip_within L"
    and run: "postprocess_core L custom_all = Some (Inr customs)"
  shows "\<exists>split. customs = map tag_core split
          \<and> list_all (\<lambda>c. bbox_consistent L c
                \<and> py_round (c_width c) \<le> SPLIT_MAX_WIDTH_MM + SCARTO_CUSTOM_MM) split"
proof -
  from run obtain merged split where
    m: "merge_customs_row_aware (\<lambda>g. mk_custom_core L g None) L custom_all
          (of_int SCARTO_CUSTOM_MM) BLOCK_HEIGHT = Inr merged"
    and s: "split_for (\<lambda>g. mk_custom_core L g None) L SPLIT_MAX_WIDTH_MM 495 merged []
            = Some (Inr split)"
    and c: "customs = validate_and_tag_customs_core split"
    by (auto simp: postprocess_core_def split_out_of_spec_def
        split: sum.splits option.splits)
  have mk: "\<forall>g c. mk_custom_core L g None = Inr c \<longrightarrow> bbox_consistent L c"
    by (intro allI impI) (rule mk_custom_core_consistent)
  have "list_all (bbox_consistent L) merged"
    using merge_customs_row_aware_inv [OF mk m] .
  then have in_merged: "\<And>c. c \<in> set merged \<Longrightarrow> bbox_consistent L c"
    by (simp add: list_all_iff)
  have "list_all (\<lambda>c. bbox_consistent L c
          \<and> py_round (c_width c) \<le> SPLIT_MAX_WIDTH_MM + SCARTO_CUSTOM_MM) split"
  proof (rule split_for_inv [OF _ _ s])
    fix poly miny maxx maxy x c
    assume "x < maxx - COORD_EPS"
      and "mk_custom_core L (buffer L (intersection L poly
             (box L x miny (min (x + of_int SPLIT_MAX_WIDTH_MM) maxx) maxy)) 0) None = Inr c"
    then show "bbox_consistent L c
        \<and> py_round (c_width c) \<le> SPLIT_MAX_WIDTH_MM + SCARTO_CUSTOM_MM"
      using strip_piece_narrow [OF cw, of x maxx SPLIT_MAX_WIDTH_MM poly miny maxy None c]
        mk_custom_core_consistent [of L _ None c]
      by (simp add: SPLIT_MAX_WIDTH_MM_def SCARTO_CUSTOM_MM_def)
  next
    fix c
    assume "c \<in> set merged"
      and "py_round (c_width c) \<le> SPLIT_MAX_WIDTH_MM + SCARTO_CUSTOM_MM"
    then show "bbox_consistent L c
        \<and> py_round (c_width c) \<le> SPLIT_MAX_WIDTH_MM + SCARTO_CUSTOM_MM"
      using in_merged by simp
  next
    show "list_all (\<lambda>c. bbox_consistent L c
        \<and> py_round (c_width c) \<le> SPLIT_MAX_WIDTH_MM + SCARTO_CUSTOM_MM) []"
      by simp
  qed
  with c show ?thesis
    by (auto simp: validate_and_tag_customs_core_def)
qed

lemma consistent_fields_integral:
  assumes "bbox_consistent L d"
  shows "c_width d = of_int (py_round (c_width d)) \<and> c_height d = of_int (py_round (c_height d))"
  using assms
  by (auto simp: bbox_consistent_def snap_eq py_round_of_int split: prod.splits)

lemma tag_core_sound:
  assumes "c_width d = of_int w" "c_height d = of_int h" "w \<le> 418"
  shows "(c_ctype (tag_core d) = Some CT1 \<longrightarrow>
            \<bar>c_height (tag_core d) - of_int BLOCK_HEIGHT\<bar> \<le> of_int SCARTO_CUSTOM_MM
            \<and> c_width (tag_core d) \<le> of_int MAX_STD_WIDTH + of_int SCARTO_CUSTOM_MM)
       \<and> (c_ctype (tag_core d) = Some OutOfSpec \<longrightarrow>
            of_int MAX_STD_WIDTH + of_int SCARTO_CUSTOM_MM < c_width (tag_core d)
            \<or> of_int BLOCK_HEIGHT + of_int SCARTO_CUSTOM_MM < c_height (tag_core d))
       \<and> (c_ctype (tag_core d) = Some CT1 \<or> c_ctype (tag_core d) = Some OutOfSpec
            \<or> c_ctype (tag_core d) = Some CT2)"
proof -
  have mx: "Max (set BLOCK_WIDTHS) = 1239"
    by (simp add: BLOCK_WIDTHS_def)
  have a: "\<bar>real_of_int h - 495\<bar> \<le> 5 \<longleftrightarrow> \<bar>h - 495\<bar> \<le> 5"
    by linarith
  show ?thesis
    using assms
    by (auto simp: tag_core_def Let_def mx MAX_STD_WIDTH_def BLOCK_HEIGHT_def
        SCARTO_CUSTOM_MM_def py_round_of_int a)
qed

lemma region_bounds_within:
  assumes "gs \<noteq> []" and "\<forall>r\<in>set gs. case r of (a, b, c, d) \<Rightarrow> x0 \<le> a \<and> c \<le> x1"
  shows "case region_bounds gs of (a, b, c, d) \<Rightarrow> x0 \<le> a \<and> c \<le> x1"
  using assms
proof (induction gs rule: region_bounds.induct)
  case 1
  then show ?case by simp
next
  case (2 r)
  then show ?case by simp
next
  case (3 r v va)
  then show ?case
    by (auto split: prod.splits)
qed

lemma clip_within_region_lib: "clip_within region_lib"
  unfolding clip_within_def
proof (intro allI impI, elim conjE)
  fix p x0 y0 x1 y1 g
  assume le: "x0 \<le> (x1::real)"
    and s: "sanitize_polygon region_lib
              (buffer region_lib (intersection region_lib p (box region_lib x0 y0 x1 y1)) 0)
            = Inr g"
  from s have g: "g = region_intersection p [(x0, y0, x1, y1)]"
    by (simp add: sanitize_polygon_def region_sel)
  have inside: "\<forall>r\<in>set g. case r of (a, b, c, d) \<Rightarrow> x0 \<le> a \<and> c \<le> x1"
    by (auto simp: g region_intersection_def rect_clip_def)
  show "case bounds region_lib g of (minx, miny, maxx, maxy) \<Rightarrow> maxx - minx \<le> x1 - x0"
  proof (cases "g = []")
    case True
    with le show ?thesis by (simp add: region_sel)
  next
    case False
    from region_bounds_within [OF False inside] show ?thesis
      by (auto simp: region_sel split: prod.splits)
  qed
qed

text \<open>
  The two copies of \<^verbatim>\<open>validate_and_tag_customs\<close> at the edge of their width test: the core
  module tags a piece 1244 wide as out of spec (no such piece reaches it from
  \<^verbatim>\<open>pack_wall\<close>), main.py tags a piece 418 wide as out of spec.
\<close>

lemma tag_core_at_1244:
  "c_ctype (tag_core (residual_87_core\<lparr>c_width := 1244\<rparr>)) = Some OutOfSpec"
  by (simp add: tag_core_def Let_def residual_87_core_def BLOCK_WIDTHS_def
      SCARTO_CUSTOM_MM_def py_round_def)

lemma tag_main_at_418:
  "c_ctype (tag_main (residual_87\<lparr>c_width := 418\<rparr>)) = Some OutOfSpec"
  by (simp add: tag_main_def Let_def residual_87_def SCARTO_CUSTOM_MM_def py_round_def)

lemma pack_wall_core_post:
  assumes "pack_wall_core L polygon block_widths block_height row_offset apertures
           = Some (Inr (events, placed, customs))"
  shows "\<exists>custom_all. postprocess_core L custom_all = Some (Inr customs)"
  using assms
  by (auto simp: pack_wall_core_def Let_def
      split: sum.splits option.splits prod.splits if_splits)

text \<open>
  C7 (as amended). For every custom piece in the output of \<^verbatim>\<open>pack_wall\<close> of the core
  module (wall\_builder.py, whose \<^verbatim>\<open>validate_and_tag_customs\<close> compares the width with the
  largest block width), with \<open>w\<close> and
  \<open>h\<close> its width and height fields: \<open>ctype = 1\<close> implies \<open>|h - COURSE_HEIGHT| \<le> CUSTOM_TOL\<close>
  and \<open>w \<le> MAX_STD_WIDTH + CUSTOM_TOL\<close>; \<open>ctype = out_of_spec\<close> implies
  \<open>w > MAX_STD_WIDTH + CUSTOM_TOL\<close> or \<open>h > COURSE_HEIGHT + CUSTOM_TOL\<close>; and every piece has
  one of the three tags, so a piece that is neither gets \<open>ctype = 2\<close>. The geometry library
  is assumed to clip a polygon to a strip without widening it.
\<close>

theorem classification_soundness:
  assumes "clip_within L"
    and "pack_wall_core L polygon block_widths block_height row_offset apertures
         = Some (Inr (events, placed, customs))"
    and "c \<in> set customs"
  shows "(c_ctype c = Some CT1 \<longrightarrow>
            \<bar>c_height c - of_int BLOCK_HEIGHT\<bar> \<le> of_int SCARTO_CUSTOM_MM
            \<and> c_width c \<le> of_int MAX_STD_WIDTH + of_int SCARTO_CUSTOM_MM)
       \<and> (c_ctype c = Some OutOfSpec \<longrightarrow>
            of_int MAX_STD_WIDTH + of_int SCARTO_CUSTOM_MM < c_width c
            \<or> of_int BLOCK_HEIGHT + of_int SCARTO_CUSTOM_MM < c_height c)
       \<and> (c_ctype c = Some CT1 \<or> c_ctype c = Some OutOfSpec \<or> c_ctype c = Some CT2)"
proof -
  from pack_wall_core_post [OF assms(2)] obtain custom_all where
    "postprocess_core L custom_all = Some (Inr customs)" by blast
  from postprocess_core_inv [OF assms(1) this] obtain split where
    cs: "customs = map tag_core split"
    and inv: "list_all (\<lambda>c. bbox_consistent L c
                \<and> py_round (c_width c) \<le> SPLIT_MAX_WIDTH_MM + SCARTO_CUSTOM_MM) split"
    by blast
  from assms(3) cs obtain d where d: "d \<in> set split" and c: "c = tag_core d"
    by auto
  from inv d have cons: "bbox_consistent L d"
    and narrow: "py_round (c_width d) \<le> 418"
    by (auto simp: list_all_iff SPLIT_MAX_WIDTH_MM_def SCARTO_CUSTOM_MM_def)
  from consistent_fields_integral [OF cons]
  have w: "c_width d = of_int (py_round (c_width d))"
    and h: "c_height d = of_int (py_round (c_height d))"
    by simp_all
  from tag_core_sound [OF w h narrow] show ?thesis
    unfolding c .
qed

theorem classification_soundness_witness:
  "clip_within region_lib
   \<and> pack_wall_core region_lib [(0, 0, 500, 495)] [1239, 826, 413] 495 (Some 826) []
       = Some (Inr ([FullCourse 0 0 495, NoAdaptiveCourse 0], [mk_std 0 0 413 495],
            [residual_87_core]))
   \<and> residual_87_core \<in> set [residual_87_core]
   \<and> c_ctype residual_87_core = Some CT1
   \<and> \<bar>c_height residual_87_core - of_int BLOCK_HEIGHT\<bar> \<le> of_int SCARTO_CUSTOM_MM
   \<and> c_width residual_87_core \<le> of_int MAX_STD_WIDTH + of_int SCARTO_CUSTOM_MM"
proof -
  have m: "residual_87_core \<in> set [residual_87_core]"
    by simp
  have t: "c_ctype residual_87_core = Some CT1"
    by (simp add: residual_87_core_def)
  from classification_soundness [OF clip_within_region_lib run_core_500 m] t
  have "\<bar>c_height residual_87_core - of_int BLOCK_HEIGHT\<bar> \<le> of_int SCARTO_CUSTOM_MM
        \<and> c_width residual_87_core \<le> of_int MAX_STD_WIDTH + of_int SCARTO_CUSTOM_MM"
    by blast
  with clip_within_region_lib run_core_500 m t show ?thesis
    by blast
qed

text \<open>
  The claim C7 as stated fails on main.py, whose \<^verbatim>\<open>validate_and_tag_customs\<close> tags a piece
  out of spec from the width \<open>413 + CUSTOM_TOL\<close> on. On the notched wall 418 wide the
  segment packer cuts a piece 413 wide and a tail 5 wide, \<^verbatim>\<open>merge_customs_row_aware\<close> unites
  them into one piece 418 wide and 495 high, \<^verbatim>\<open>split_out_of_spec\<close> passes it on (418 is not
  above 413 + 5) and it is tagged out of spec, although it is neither wider than
  \<open>MAX_STD_WIDTH + CUSTOM_TOL\<close> nor higher than \<open>COURSE_HEIGHT + CUSTOM_TOL\<close>.
\<close>

theorem classification_main_counterexample:
  "pack_wall_main solid_lib notched_wall [1239, 826, 413] 495 (Some 826) []
     = Some (Inr ([], [wall_piece_418]))
   \<and> c_ctype wall_piece_418 = Some OutOfSpec
   \<and> c_width wall_piece_418 = 418
   \<and> c_height wall_piece_418 = 495
   \<and> \<not> (of_int MAX_STD_WIDTH + of_int SCARTO_CUSTOM_MM < c_width wall_piece_418
        \<or> of_int BLOCK_HEIGHT + of_int SCARTO_CUSTOM_MM < c_height wall_piece_418)"
proof -
  have "c_ctype wall_piece_418 = Some OutOfSpec"
    and "c_width wall_piece_418 = 418"
    and "c_height wall_piece_418 = 495"
    and "\<not> (of_int MAX_STD_WIDTH + of_int SCARTO_CUSTOM_MM < c_width wall_piece_418
          \<or> of_int BLOCK_HEIGHT + of_int SCARTO_CUSTOM_MM < c_height wall_piece_418)"
    by (simp_all add: wall_piece_418_def MAX_STD_WIDTH_def BLOCK_WIDTHS_def
        SCARTO_CUSTOM_MM_def BLOCK_HEIGHT_def)
  with run_main_notched show ?thesis
    by blast
qed

subsection \<open>Order trials and offsets (main.py)\<close>















subsection \<open>Labels (main.py)\<close>

lemma std_labels_length: "length (std_labels cnt blks) = length blks"
  by (induction blks arbitrary: cnt) (simp_all add: Let_def)

lemma custom_labels_length: "length (custom_labels cnt cs) = length cs"
  by (induction cs arbitrary: cnt) (simp_all add: Let_def)

lemma std_labels_nth:
  "i < length blks \<Longrightarrow>
   std_labels cnt blks ! i =
   letter_of (b_width (blks ! i))
   @ str_nat (cnt (letter_of (b_width (blks ! i)))
       + length (filter (\<lambda>b. letter_of (b_width b) = letter_of (b_width (blks ! i)))
           (take (Suc i) blks)))"
proof (induction blks arbitrary: cnt i)
  case Nil
  then show ?case by simp
next
  case (Cons b blks)
  show ?case
  proof (cases i)
    case 0
    then show ?thesis by (simp add: Let_def)
  next
    case (Suc j)
    with Cons.prems have "j < length blks" by simp
    from Cons.IH [OF this] Suc show ?thesis
      by (simp add: Let_def)
  qed
qed

lemma custom_labels_nth:
  "i < length cs \<Longrightarrow>
   custom_labels cnt cs ! i =
   ''CU'' @ custom_code (cs ! i) @ ''(''
   @ str_nat (cnt (custom_code (cs ! i))
       + length (filter (\<lambda>c. custom_code c = custom_code (cs ! i)) (take (Suc i) cs)))
   @ '')''"
proof (induction cs arbitrary: cnt i)
  case Nil
  then show ?case by simp
next
  case (Cons c cs)
  show ?case
  proof (cases i)
    case 0
    then show ?thesis by (simp add: Let_def)
  next
    case (Suc j)
    with Cons.prems have "j < length cs" by simp
    from Cons.IH [OF this] Suc show ?thesis
      by (simp add: Let_def)
  qed
qed

lemma labels_main_500:
  "create_block_labels [mk_std 0 0 413 495] [residual_87\<lparr>c_ctype := Some CT1\<rparr>]
   = ([''C1''], [''CU1(1)''])"
  by (simp add: create_block_labels_def mk_std_def letter_of_def SIZE_TO_LETTER_def
      custom_code_def residual_87_def str_nat.simps digit_char_def)

text \<open>
  Labels follow the emission order: the label of a block is its letter followed by the
  number of blocks with the same letter up to and including it, the label of a custom piece
  is \<^verbatim>\<open>CU\<close>, its code and, in brackets, the number of pieces with the same code up to and
  including it.
\<close>

lemma create_block_labels_nth:
  "length (fst (create_block_labels placed customs)) = length placed
   \<and> length (snd (create_block_labels placed customs)) = length customs
   \<and> (\<forall>i<length placed.
         fst (create_block_labels placed customs) ! i
         = letter_of (b_width (placed ! i))
           @ str_nat (length (filter
               (\<lambda>b. letter_of (b_width b) = letter_of (b_width (placed ! i)))
               (take (Suc i) placed))))
   \<and> (\<forall>i<length customs.
         snd (create_block_labels placed customs) ! i
         = ''CU'' @ custom_code (customs ! i) @ ''(''
           @ str_nat (length (filter
               (\<lambda>c. custom_code c = custom_code (customs ! i))
               (take (Suc i) customs)))
           @ '')'')"
  by (auto simp: create_block_labels_def std_labels_length custom_labels_length
      std_labels_nth custom_labels_nth)

subsection \<open>The tail of a segment in main.py\<close>







subsection \<open>The tail of a segment in the core module, and coverage\<close>

text \<open>
  C1 (as amended). At the end of a segment, when no width could be placed at the cursor,
  the core packer emits the residual as one custom piece exactly when the remaining width
  is greater than \<open>MICRO_REST\<close> and the residual is non-empty with area at least
  \<open>AREA_EPS\<close>; otherwise it emits nothing and the segment ends.
\<close>

theorem residual_emitted_beyond_micro_rest:
  assumes "cursor < seg_maxx - COORD_EPS"
    and "for_widths_core L cmp y stripe_top cursor (seg_maxx - cursor) widths_order widths_order
         = Inr None"
  shows
    "(let remaining_intersec = intersection L (box L cursor y seg_maxx stripe_top) cmp
      in greedy_loop_core L cmp y stripe_top seg_maxx widths_order cursor placed custom
         = (if MICRO_REST_MM < seg_maxx - cursor \<and> \<not> is_empty L remaining_intersec
               \<and> AREA_EPS \<le> area L remaining_intersec
            then (case mk_custom_core L remaining_intersec (Some widths_order) of
                    Inl e \<Rightarrow> Some (Inl e)
                  | Inr c \<Rightarrow> Some (Inr (placed, custom @ [c])))
            else Some (Inr (placed, custom))))"
  by (subst greedy_loop_core.simps) (use assms in \<open>auto simp: Let_def\<close>)

theorem residual_emitted_beyond_micro_rest_witness:
  "(413::real) < 500 - COORD_EPS
   \<and> for_widths_core region_lib [(0, 0, 500, 495)] 0 495 413 (500 - 413) [1239, 826, 413]
       [1239, 826, 413] = Inr None
   \<and> MICRO_REST_MM < (500::real) - 413
   \<and> greedy_loop_core region_lib [(0, 0, 500, 495)] 0 495 500 [1239, 826, 413] 413
       [mk_std 0 0 413 BLOCK_HEIGHT] []
     = Some (Inr ([mk_std 0 0 413 BLOCK_HEIGHT],
         [residual_87_core\<lparr>c_source_block_width := Some 413, c_waste := Some 326,
            c_ctype := None\<rparr>]))"
proof -
  have h1: "(413::real) < 500 - COORD_EPS"
    by (simp add: cfg_defs)
  have h2: "for_widths_core region_lib [(0, 0, 500, 495)] 0 495 413 (500 - 413)
       [1239, 826, 413] [1239, 826, 413] = Inr None"
    by (simp add: cfg_defs)
  have h3: "MICRO_REST_MM < (500::real) - 413"
    by (simp add: cfg_defs)
  from residual_emitted_beyond_micro_rest [OF h1 h2, of "[mk_std 0 0 413 BLOCK_HEIGHT]" "[]"]
  have "greedy_loop_core region_lib [(0, 0, 500, 495)] 0 495 500 [1239, 826, 413] 413
       [mk_std 0 0 413 BLOCK_HEIGHT] []
     = Some (Inr ([mk_std 0 0 413 BLOCK_HEIGHT],
         [residual_87_core\<lparr>c_source_block_width := Some 413, c_waste := Some 326,
            c_ctype := None\<rparr>]))"
    by (simp add: Let_def mk_custom_core_def choose_optimal_source_block_for_custom_def
        sanitize_polygon_def residual_87_core_def cfg_defs region_defs snap_numeral snap_zero)
  with h1 h2 h3 show ?thesis
    by blast
qed

text \<open>
  The claim C1 as stated fails on the wall \<open>[0, 423] \<times> [0, 495]\<close> with no aperture: one block
  of 413 is placed, the tail 10 wide (area 4950) is discarded although it is not empty, and
  the area left uncovered exceeds \<open>AREA_EPS\<close> times the number of pieces.
\<close>

theorem coverage_counterexample:
  "pack_wall_core region_lib [(0, 0, 423, 495)] [1239, 826, 413] 495 (Some 826) []
     = Some (Inr ([FullCourse 0 0 495, NoAdaptiveCourse 0], [mk_std 0 0 413 495], []))
   \<and> \<not> (area region_lib [(0, 0, 423, 495)]
          - (placed_area [mk_std 0 0 413 495] + custom_area region_lib [])
        \<le> AREA_EPS * of_nat (length [mk_std 0 0 413 495]
             + length ([] :: rect list custom list)))
   \<and> \<not> is_empty region_lib
         (intersection region_lib (box region_lib 413 0 423 495) [(0, 0, 423, 495)])
   \<and> AREA_EPS \<le> area region_lib
         (intersection region_lib (box region_lib 413 0 423 495) [(0, 0, 423, 495)])"
proof -
  have a: "\<not> (area region_lib [(0, 0, 423, 495)]
          - (placed_area [mk_std 0 0 413 495] + custom_area region_lib [])
        \<le> AREA_EPS * of_nat (length [mk_std 0 0 413 495]
             + length ([] :: rect list custom list)))"
    by (simp add: placed_area_def custom_area_def mk_std_def cfg_defs region_defs)
  have b: "\<not> is_empty region_lib
         (intersection region_lib (box region_lib 413 0 423 495) [(0, 0, 423, 495)])"
    by (simp add: region_defs)
  have c: "AREA_EPS \<le> area region_lib
         (intersection region_lib (box region_lib 413 0 423 495) [(0, 0, 423, 495)])"
    by (simp add: cfg_defs region_defs)
  from run_core_423 a b c show ?thesis
    by blast
qed

subsection \<open>The aperture filter of the core module\<close>

lemma for_apertures_core_filter:
  "wall_area \<noteq> 0 \<Longrightarrow>
   for_apertures_core L wall_area aps valid
   = Inr (valid @ filter (aperture_kept L wall_area) aps)"
  by (induction aps arbitrary: valid) (auto simp: aperture_kept_def Let_def)

lemma pack_wall_core_rows:
  "pack_wall_core L polygon0 block_widths block_height row_offset apertures =
     (case sanitize_polygon L polygon0 of
        Inl e \<Rightarrow> Some (Inl e)
      | Inr polygon \<Rightarrow>
          (case for_apertures_core L (area L polygon) apertures [] of
             Inl e \<Rightarrow> Some (Inl e)
           | Inr valid_apertures \<Rightarrow>
               (case keepout_core L polygon (polygon_holes L polygon) valid_apertures of
                  Inl e \<Rightarrow> Some (Inl e)
                | Inr keepout \<Rightarrow>
                    pack_rows_core L polygon keepout block_widths block_height row_offset)))"
  by (simp add: pack_wall_core_def pack_rows_core_def Let_def split: sum.splits)

lemma keepout_core_union:
  "area L polygon \<noteq> 0 \<Longrightarrow>
   keepout_core L polygon hole_polys valid_apertures
   = Inr (if (hole_polys \<noteq> [] \<or> valid_apertures \<noteq> [])
             \<and> \<not> is_empty L (unary_union L (hole_polys @ valid_apertures))
          then Some (unary_union L (hole_polys @ valid_apertures)) else None)"
  by (simp add: keepout_core_def Let_def truthy_def)

text \<open>
  C4 (as amended). In \<^verbatim>\<open>pack_wall\<close> of the core module, for a wall of non-zero area: the
  apertures that survive the filter are, in their order, exactly those with area at least
  1000 and area ratio to the wall at most 0.80; the keep-out mask is the union of the inner
  rings of the wall and of the survivors (no mask when there is neither or the union is
  empty), and the result of \<^verbatim>\<open>pack_wall\<close> is that of its courses and post-processing run
  with this mask; so \<^verbatim>\<open>pack_wall\<close> gives the same result on the survivors alone and, when
  every aperture is discarded, the same result as with no aperture.
\<close>

theorem aperture_filtering:
  assumes "sanitize_polygon L polygon0 = Inr polygon"
    and "area L polygon \<noteq> 0"
  shows
    "(let survivors = filter (aperture_kept L (area L polygon)) apertures;
          hole_polys = polygon_holes L polygon;
          u = unary_union L (hole_polys @ survivors);
          mask = (if (hole_polys \<noteq> [] \<or> survivors \<noteq> []) \<and> \<not> is_empty L u then Some u
                  else None)
      in for_apertures_core L (area L polygon) apertures [] = Inr survivors
         \<and> (\<forall>a. a \<in> set survivors
                 \<longleftrightarrow> a \<in> set apertures \<and> 1000 \<le> area L a
                     \<and> area L a / area L polygon \<le> 8 / 10)
         \<and> keepout_core L polygon hole_polys survivors = Inr mask
         \<and> pack_wall_core L polygon0 block_widths block_height row_offset apertures
           = pack_rows_core L polygon mask block_widths block_height row_offset
         \<and> pack_wall_core L polygon0 block_widths block_height row_offset apertures
           = pack_wall_core L polygon0 block_widths block_height row_offset survivors
         \<and> ((\<forall>a\<in>set apertures. \<not> aperture_kept L (area L polygon) a) \<longrightarrow>
              pack_wall_core L polygon0 block_widths block_height row_offset apertures
              = pack_wall_core L polygon0 block_widths block_height row_offset []))"
proof -
  define survivors where "survivors = filter (aperture_kept L (area L polygon)) apertures"
  define hole_polys where "hole_polys = polygon_holes L polygon"
  define u where "u = unary_union L (hole_polys @ survivors)"
  define mask where
    "mask = (if (hole_polys \<noteq> [] \<or> survivors \<noteq> []) \<and> \<not> is_empty L u then Some u else None)"
  have f: "for_apertures_core L (area L polygon) aps []
           = Inr (filter (aperture_kept L (area L polygon)) aps)" for aps
    using for_apertures_core_filter [OF assms(2), of L aps "[]"] by simp
  have c1: "for_apertures_core L (area L polygon) apertures [] = Inr survivors"
    using f by (simp add: survivors_def)
  have c2: "\<forall>a. a \<in> set survivors
                 \<longleftrightarrow> a \<in> set apertures \<and> 1000 \<le> area L a
                     \<and> area L a / area L polygon \<le> 8 / 10"
    by (auto simp: survivors_def aperture_kept_def)
  have c3: "keepout_core L polygon hole_polys survivors = Inr mask"
    using keepout_core_union [OF assms(2)] by (simp add: mask_def u_def)
  have c4: "pack_wall_core L polygon0 block_widths block_height row_offset apertures
           = pack_rows_core L polygon mask block_widths block_height row_offset"
    using c3 by (simp add: pack_wall_core_rows assms(1) c1 hole_polys_def)
  have ff: "filter (aperture_kept L (area L polygon)) survivors = survivors"
    by (simp add: survivors_def)
  have c5: "pack_wall_core L polygon0 block_widths block_height row_offset apertures
           = pack_wall_core L polygon0 block_widths block_height row_offset survivors"
    using c3 f [of survivors]
    by (simp add: pack_wall_core_rows assms(1) c1 ff hole_polys_def)
  have "survivors = []"
    if "\<forall>a\<in>set apertures. \<not> aperture_kept L (area L polygon) a"
    using that by (simp add: survivors_def filter_empty_conv)
  with c5 have c6: "(\<forall>a\<in>set apertures. \<not> aperture_kept L (area L polygon) a) \<longrightarrow>
              pack_wall_core L polygon0 block_widths block_height row_offset apertures
              = pack_wall_core L polygon0 block_widths block_height row_offset []"
    by simp
  from c1 c2 c3 c4 c5 c6 show ?thesis
    unfolding Let_def survivors_def hole_polys_def u_def mask_def by blast
qed

theorem aperture_filtering_witness:
  "sanitize_polygon region_lib [(0, 0, 500, 495)] = Inr [(0, 0, 500, 495)]
   \<and> area region_lib [(0, 0, 500, 495)] \<noteq> 0
   \<and> \<not> aperture_kept region_lib (area region_lib [(0, 0, 500, 495)]) [(10, 10, 20, 20)]
   \<and> \<not> aperture_kept region_lib (area region_lib [(0, 0, 500, 495)]) [(0, 0, 450, 495)]
   \<and> aperture_kept region_lib (area region_lib [(0, 0, 500, 495)]) [(100, 0, 200, 495)]
   \<and> for_apertures_core region_lib (area region_lib [(0, 0, 500, 495)])
       [[(10, 10, 20, 20)], [(0, 0, 450, 495)]] [] = Inr []
   \<and> pack_wall_core region_lib [(0, 0, 500, 495)] [1239, 826, 413] 495 (Some 826)
       [[(10, 10, 20, 20)], [(0, 0, 450, 495)]]
     = pack_wall_core region_lib [(0, 0, 500, 495)] [1239, 826, 413] 495 (Some 826) []
   \<and> for_apertures_core region_lib (area region_lib [(0, 0, 500, 495)])
       [[(10, 10, 20, 20)], [(100, 0, 200, 495)]] [] = Inr [[(100, 0, 200, 495)]]
   \<and> keepout_core region_lib [(0, 0, 500, 495)] (polygon_holes region_lib [(0, 0, 500, 495)])
       [[(100, 0, 200, 495)]] = Inr (Some [(100, 0, 200, 495)])
   \<and> pack_wall_core region_lib [(0, 0, 500, 495)] [1239, 826, 413] 495 (Some 826)
       [[(10, 10, 20, 20)], [(100, 0, 200, 495)]]
     = pack_rows_core region_lib [(0, 0, 500, 495)] (Some [(100, 0, 200, 495)])
         [1239, 826, 413] 495 (Some 826)"
proof -
  have s: "sanitize_polygon region_lib [(0, 0, 500, 495)] = Inr [(0, 0, 500, 495)]"
    by (simp add: sanitize_polygon_def region_sel)
  have nz: "area region_lib [(0, 0, 500, 495)] \<noteq> 0"
    by (simp add: region_defs)
  have k1: "\<not> aperture_kept region_lib (area region_lib [(0, 0, 500, 495)]) [(10, 10, 20, 20)]"
    by (simp add: aperture_kept_def region_defs)
  have k2: "\<not> aperture_kept region_lib (area region_lib [(0, 0, 500, 495)]) [(0, 0, 450, 495)]"
    by (simp add: aperture_kept_def region_defs)
  have k3: "aperture_kept region_lib (area region_lib [(0, 0, 500, 495)]) [(100, 0, 200, 495)]"
    by (simp add: aperture_kept_def region_defs)
  have all: "\<forall>a\<in>set [[(10, 10, 20, 20)], [(0, 0, 450, 495)]].
               \<not> aperture_kept region_lib (area region_lib [(0, 0, 500, 495)]) a"
    using k1 k2 by simp
  have fl: "filter (aperture_kept region_lib (area region_lib [(0, 0, 500, 495)]))
              [[(10, 10, 20, 20)], [(0, 0, 450, 495)]] = []"
    using k1 k2 by simp
  have fl': "filter (aperture_kept region_lib (area region_lib [(0, 0, 500, 495)]))
              [[(10, 10, 20, 20)], [(100, 0, 200, 495)]] = [[(100, 0, 200, 495)]]"
    using k1 k3 by simp
  have h: "polygon_holes region_lib [(0, 0, 500, 495)] = []"
    by (simp add: polygon_holes_def region_sel)
  have u: "unary_union region_lib [[(100, 0, 200, 495)]] = [(100, 0, 200, 495)]"
    by (simp add: region_sel region_union_def region_difference_def)
  have e: "\<not> is_empty region_lib [(100, 0, 200, 495)]"
    by (simp add: region_sel)
  from aperture_filtering [OF s nz, of "[[(10, 10, 20, 20)], [(0, 0, 450, 495)]]"
      "[1239, 826, 413]" 495 "Some 826"] all
  have w1: "for_apertures_core region_lib (area region_lib [(0, 0, 500, 495)])
       [[(10, 10, 20, 20)], [(0, 0, 450, 495)]] [] = Inr []
   \<and> pack_wall_core region_lib [(0, 0, 500, 495)] [1239, 826, 413] 495 (Some 826)
       [[(10, 10, 20, 20)], [(0, 0, 450, 495)]]
     = pack_wall_core region_lib [(0, 0, 500, 495)] [1239, 826, 413] 495 (Some 826) []"
    unfolding Let_def fl by blast
  from aperture_filtering [OF s nz, of "[[(10, 10, 20, 20)], [(100, 0, 200, 495)]]"
      "[1239, 826, 413]" 495 "Some 826"]
  have w2: "for_apertures_core region_lib (area region_lib [(0, 0, 500, 495)])
       [[(10, 10, 20, 20)], [(100, 0, 200, 495)]] [] = Inr [[(100, 0, 200, 495)]]
   \<and> keepout_core region_lib [(0, 0, 500, 495)] (polygon_holes region_lib [(0, 0, 500, 495)])
       [[(100, 0, 200, 495)]] = Inr (Some [(100, 0, 200, 495)])
   \<and> pack_wall_core region_lib [(0, 0, 500, 495)] [1239, 826, 413] 495 (Some 826)
       [[(10, 10, 20, 20)], [(100, 0, 200, 495)]]
     = pack_rows_core region_lib [(0, 0, 500, 495)] (Some [(100, 0, 200, 495)])
         [1239, 826, 413] 495 (Some 826)"
    unfolding Let_def fl' by (simp add: h u e)
  from s nz k1 k2 k3 w1 w2 show ?thesis
    by blast
qed

text \<open>
  The claim C4 as stated fails on main.py, whose \<^verbatim>\<open>pack_wall\<close> unites every aperture into
  the keep-out mask without a filter. An aperture that covers the wall
  \<open>[0, 500] \<times> [0, 495]\<close> fails the ratio test, yet with it main.py places nothing, while
  with no aperture it places a block and a custom piece.
\<close>

theorem aperture_unfiltered_counterexample:
  "\<not> aperture_kept solid_lib (area solid_lib [(0, 0, 500, 495)]) [(- 10, - 10, 510, 505)]
   \<and> pack_wall_main solid_lib [(0, 0, 500, 495)] [1239, 826, 413] 495 (Some 826)
       [[(- 10, - 10, 510, 505)]]
     = Some (Inr ([], []))
   \<and> pack_wall_main solid_lib [(0, 0, 500, 495)] [1239, 826, 413] 495 (Some 826) []
     = Some (Inr ([mk_std 0 0 413 495], [residual_87\<lparr>c_ctype := Some CT1\<rparr>]))
   \<and> pack_wall_main solid_lib [(0, 0, 500, 495)] [1239, 826, 413] 495 (Some 826)
       [[(- 10, - 10, 510, 505)]]
     \<noteq> pack_wall_main solid_lib [(0, 0, 500, 495)] [1239, 826, 413] 495 (Some 826) []"
proof -
  have "\<not> aperture_kept solid_lib (area solid_lib [(0, 0, 500, 495)])
          [(- 10, - 10, 510, 505)]"
    by (simp add: aperture_kept_def solid_defs)
  with run_main_solid_covered run_main_solid_500 show ?thesis
    by simp
qed

subsection \<open>Runs of the core module that return\<close>




























subsection \<open>The courses of the core module\<close>







end
